theory Spec2Isabelle
  imports Main "HOL-Library.Sublist" "HOL-Library.AList" "HOL-Library.List_Lexorder"
    "HOL-Library.Char_ord"
begin

section \<open>Strings as the cache uses them\<close>

text \<open>
  JavaScript strings are modelled as \<open>string\<close>: the list of the bytes of the UTF-8 text.
  The model follows the source on every string operation it calls. \<open>startsWith\<close>,
  \<open>includes\<close>, \<open>split('/')\<close>, \<open>substring(prefix.length)\<close> and the conversion of a
  number to its decimal text are defined here. \<open>toLowerCase\<close> and \<open>trim\<close> depend on the
  Unicode tables of the JavaScript library: they are parameters of the model, the two
  fields of \<open>js_lib\<close>, and every statement holds for whatever functions they are.
\<close>

record js_lib =
  toLowerCase :: "string \<Rightarrow> string"
  trim :: "string \<Rightarrow> string"

definition startsWith :: "string \<Rightarrow> string \<Rightarrow> bool" where
  "startsWith s p = prefix p s"

definition includes_str :: "string \<Rightarrow> string \<Rightarrow> bool" where
  "includes_str s t = sublist t s"

definition substring :: "string \<Rightarrow> nat \<Rightarrow> string" where
  "substring s n = drop n s"

text \<open>\<open>s.split(c)\<close> for a one-character separator: never empty, \<open>''.split('/') = ['']\<close>.\<close>

fun split_on :: "char \<Rightarrow> string \<Rightarrow> string list" where
  "split_on c [] = [[]]"
| "split_on c (x # xs) =
     (if x = c then [] # split_on c xs
      else (case split_on c xs of
              [] \<Rightarrow> [[x]]
            | w # ws \<Rightarrow> (x # w) # ws))"

text \<open>\<open>s.split('/').pop()\<close>: the last segment.\<close>

definition last_segment :: "string \<Rightarrow> string" where
  "last_segment s = last (split_on CHR ''/'' s)"

text \<open>The decimal text of a number, as a template literal prints \<open>Date.now()\<close>.\<close>

definition digit_char :: "nat \<Rightarrow> char" where
  "digit_char d = char_of (48 + d)"

fun show_nat :: "nat \<Rightarrow> string" where
  "show_nat n = (if n < 10 then [digit_char n] else show_nat (n div 10) @ [digit_char (n mod 10)])"

declare show_nat.simps [simp del]

definition show_int :: "int \<Rightarrow> string" where
  "show_int i = (if i < 0 then CHR ''-'' # show_nat (nat (- i)) else show_nat (nat i))"

text \<open>A value is truthy when it is neither \<open>null\<close>, \<open>undefined\<close> nor the empty string.\<close>

definition truthy :: "string option \<Rightarrow> bool" where
  "truthy v = (case v of None \<Rightarrow> False | Some s \<Rightarrow> s \<noteq> [])"

section \<open>Data model\<close>

text \<open>
  A listing entry is the object the client keeps for a file or a folder. Fields that a
  JavaScript object may lack (\<open>undefined\<close> or \<open>null\<close>) are options; \<open>entry_size\<close> is
  \<open>None\<close> also when the number is \<open>NaN\<close>. The two date fields hold the clock value the
  ISO text is printed from.
\<close>

record entry =
  entry_id :: "string option"
  entry_name :: string
  entry_type :: string
  entry_size :: "int option"
  entry_path :: string
  download_url :: "string option"
  repository :: "string option"
  entry_sha :: "string option"
  created_at :: int
  updated_at :: int

text \<open>
  One object type serves both caches, as in the source: a listing entry of \<open>memoryCache\<close>
  has all fields, a commit record of \<open>commitCache\<close> only \<open>version\<close>, \<open>timestamp\<close> and
  \<open>commitSha\<close>. The durable tier holds strings; a string is either the JSON text of
  such an object or text that \<open>JSON.parse\<close> rejects.
\<close>

record cache_obj =
  version :: string
  timestamp :: int
  lastFetched :: "int option"
  commitSha :: "string option"
  path :: "string option"
  files :: "entry list option"
  folders :: "entry list option"
  repoName :: "string option"

datatype stored = Corrupt | Json cache_obj

text \<open>
  \<open>localStorage\<close>: the items in key order, and which calls throw: a read (and the
  listing of the keys) when storage access is denied, the statement
  \<open>localStorage.setItem(key, JSON.stringify(value))\<close> for a key when the quota is exceeded
  or the value cannot be serialised.
\<close>

record durable =
  items :: "(string \<times> stored) list"
  getItem_throws :: bool
  setItem_throws :: "string \<Rightarrow> bool"

text \<open>The callback \<open>setCachedData\<close> hands to \<open>setTimeout\<close>, with the values it closes over.\<close>

record deferred =
  t_cacheKey :: string
  t_cacheData :: cache_obj
  t_repoName :: string
  t_commitSha :: "string option"

record cache_state =
  memoryCache :: "(string \<times> cache_obj) list"
  commitCache :: "(string \<times> cache_obj) list"
  localStorage :: durable
  timers :: "deferred list"

text \<open>What a \<open>try\<close> block does: it throws, or it returns a value.\<close>

datatype 'a completion = Threw | Returned 'a

definition CACHE_PREFIX :: string where
  "CACHE_PREFIX = ''gitea_repo_cache_''"

definition CACHE_VERSION :: string where
  "CACHE_VERSION = ''1.0''"

definition MAX_CACHE_AGE :: int where
  "MAX_CACHE_AGE = 24 * 60 * 60 * 1000"

section \<open>The two-tier store\<close>

text \<open>\<open>path.replace(/^\/+|\/+$/g, '')\<close> removes the leading and the trailing slashes.\<close>

definition strip_slashes :: "string \<Rightarrow> string" where
  "strip_slashes p =
     rev (dropWhile (\<lambda>c. c = CHR ''/'') (rev (dropWhile (\<lambda>c. c = CHR ''/'') p)))"

definition getCacheKey :: "string \<Rightarrow> string \<Rightarrow> string" where
  "getCacheKey repo dir =
     (let normalizedPath = strip_slashes dir
      in CACHE_PREFIX @ repo @ ''_'' @ (if normalizedPath \<noteq> [] then normalizedPath else ''root''))"

definition getCommitCacheKey :: "string \<Rightarrow> string" where
  "getCommitCacheKey repo = CACHE_PREFIX @ ''commit_'' @ repo"

definition removeItem :: "string \<Rightarrow> cache_state \<Rightarrow> cache_state" where
  "removeItem k st =
     st\<lparr>localStorage := (localStorage st)\<lparr>items := AList.delete k (items (localStorage st))\<rparr>\<rparr>"

definition setItem :: "string \<Rightarrow> stored \<Rightarrow> cache_state \<Rightarrow> cache_state" where
  "setItem k v st =
     st\<lparr>localStorage := (localStorage st)\<lparr>items := AList.update k v (items (localStorage st))\<rparr>\<rparr>"

text \<open>
  The body of \<open>getCachedData\<close>'s \<open>try\<close>. The memory tier tests \<open>now - timestamp <
  MAX_CACHE_AGE\<close>; the durable tier tests the version, then \<open>now - timestamp >
  MAX_CACHE_AGE\<close>.
\<close>

definition getCachedData_try ::
  "cache_state \<Rightarrow> int \<Rightarrow> string \<Rightarrow> string \<Rightarrow> cache_obj option completion \<times> cache_state" where
  "getCachedData_try st now repo dir =
     (let cacheKey = getCacheKey repo dir;
          memoryHit =
            (case map_of (memoryCache st) cacheKey of
               None \<Rightarrow> None
             | Some memoryCached \<Rightarrow>
                 if version memoryCached = CACHE_VERSION
                    \<and> now - timestamp memoryCached < MAX_CACHE_AGE
                 then Some memoryCached else None);
          st1 =
            (case map_of (memoryCache st) cacheKey of
               None \<Rightarrow> st
             | Some memoryCached \<Rightarrow>
                 if version memoryCached = CACHE_VERSION
                    \<and> now - timestamp memoryCached < MAX_CACHE_AGE
                 then st else st\<lparr>memoryCache := AList.delete cacheKey (memoryCache st)\<rparr>)
      in case memoryHit of
           Some memoryCached \<Rightarrow> (Returned (Some memoryCached), st1)
         | None \<Rightarrow>
             if getItem_throws (localStorage st1) then (Threw, st1)
             else (case map_of (items (localStorage st1)) cacheKey of
                     None \<Rightarrow> (Returned None, st1)
                   | Some Corrupt \<Rightarrow> (Threw, st1)
                   | Some (Json parsedCache) \<Rightarrow>
                       if version parsedCache \<noteq> CACHE_VERSION
                       then (Returned None, removeItem cacheKey st1)
                       else if now - timestamp parsedCache > MAX_CACHE_AGE
                       then (Returned None, removeItem cacheKey st1)
                       else (Returned (Some parsedCache),
                             st1\<lparr>memoryCache :=
                                   AList.update cacheKey parsedCache (memoryCache st1)\<rparr>)))"

text \<open>\<open>getCachedData\<close>: the \<open>catch\<close> turns a throw into \<open>null\<close>.\<close>

definition getCachedData ::
  "cache_state \<Rightarrow> int \<Rightarrow> string \<Rightarrow> string \<Rightarrow> cache_obj option \<times> cache_state" where
  "getCachedData st now repo dir =
     (case getCachedData_try st now repo dir of
        (Threw, st') \<Rightarrow> (None, st')
      | (Returned r, st') \<Rightarrow> (r, st'))"

text \<open>
  \<open>setCachedData\<close> writes the memory tier at once and defers the durable write with
  \<open>setTimeout(..., 0)\<close>: the callback is queued in \<open>timers\<close>.
\<close>

definition setCachedData ::
  "cache_state \<Rightarrow> int \<Rightarrow> string \<Rightarrow> string \<Rightarrow> string option \<Rightarrow> entry list \<Rightarrow> entry list
     \<Rightarrow> cache_state" where
  "setCachedData st now repo dir sha fs ds =
     (let cacheKey = getCacheKey repo dir;
          cacheData = \<lparr>version = CACHE_VERSION, timestamp = now, lastFetched = Some now,
                       commitSha = sha, path = Some dir, files = Some fs, folders = Some ds,
                       repoName = Some repo\<rparr>
      in st\<lparr>memoryCache := AList.update cacheKey cacheData (memoryCache st),
            timers := timers st @ [\<lparr>t_cacheKey = cacheKey, t_cacheData = cacheData,
                                    t_repoName = repo, t_commitSha = sha\<rparr>]\<rparr>)"

text \<open>
  The deferred callback: the listing is written, then the commit record (stamped with the
  clock at that moment), then \<open>commitCache\<close>. A throwing \<open>setItem\<close> ends the \<open>try\<close>
  there.
\<close>

definition persist_try :: "cache_state \<Rightarrow> int \<Rightarrow> deferred \<Rightarrow> unit completion \<times> cache_state" where
  "persist_try st now t =
     (if setItem_throws (localStorage st) (t_cacheKey t) then (Threw, st)
      else
        (let st1 = setItem (t_cacheKey t) (Json (t_cacheData t)) st;
             commitCacheKey = getCommitCacheKey (t_repoName t);
             commitData = \<lparr>version = CACHE_VERSION, timestamp = now, lastFetched = None,
                           commitSha = t_commitSha t, path = None, files = None,
                           folders = None, repoName = None\<rparr>
         in if setItem_throws (localStorage st1) commitCacheKey then (Threw, st1)
            else (Returned (),
                  (setItem commitCacheKey (Json commitData) st1)
                    \<lparr>commitCache :=
                       AList.update (t_repoName t) commitData (commitCache st1)\<rparr>)))"

text \<open>The event loop runs the oldest queued callback; its \<open>catch\<close> is silent.\<close>

definition run_timer :: "cache_state \<Rightarrow> int \<Rightarrow> cache_state" where
  "run_timer st now =
     (case timers st of
        [] \<Rightarrow> st
      | t # ts \<Rightarrow> snd (persist_try (st\<lparr>timers := ts\<rparr>) now t))"

text \<open>
  The body of \<open>getCachedCommitSha\<close>'s \<open>try\<close>. The durable tier tests the age only.
\<close>

definition getCachedCommitSha_try ::
  "cache_state \<Rightarrow> int \<Rightarrow> string \<Rightarrow> string option completion \<times> cache_state" where
  "getCachedCommitSha_try st now repo =
     (let memoryHit =
            (case map_of (commitCache st) repo of
               None \<Rightarrow> None
             | Some memoryCached \<Rightarrow>
                 if version memoryCached = CACHE_VERSION
                    \<and> now - timestamp memoryCached < MAX_CACHE_AGE
                 then Some memoryCached else None);
          st1 =
            (case map_of (commitCache st) repo of
               None \<Rightarrow> st
             | Some memoryCached \<Rightarrow>
                 if version memoryCached = CACHE_VERSION
                    \<and> now - timestamp memoryCached < MAX_CACHE_AGE
                 then st else st\<lparr>commitCache := AList.delete repo (commitCache st)\<rparr>)
      in case memoryHit of
           Some memoryCached \<Rightarrow> (Returned (commitSha memoryCached), st1)
         | None \<Rightarrow>
             (let commitCacheKey = getCommitCacheKey repo
              in if getItem_throws (localStorage st1) then (Threw, st1)
                 else (case map_of (items (localStorage st1)) commitCacheKey of
                         None \<Rightarrow> (Returned None, st1)
                       | Some Corrupt \<Rightarrow> (Threw, st1)
                       | Some (Json parsedCache) \<Rightarrow>
                           if now - timestamp parsedCache > MAX_CACHE_AGE
                           then (Returned None, removeItem commitCacheKey st1)
                           else (Returned (commitSha parsedCache),
                                 st1\<lparr>commitCache :=
                                       AList.update repo parsedCache (commitCache st1)\<rparr>))))"

definition getCachedCommitSha ::
  "cache_state \<Rightarrow> int \<Rightarrow> string \<Rightarrow> string option \<times> cache_state" where
  "getCachedCommitSha st now repo =
     (case getCachedCommitSha_try st now repo of
        (Threw, st') \<Rightarrow> (None, st')
      | (Returned r, st') \<Rightarrow> (r, st'))"

section \<open>The remote content host\<close>

text \<open>
  \<open>fetch\<close> either rejects (a network error) or resolves to a response with a status;
  \<open>response.ok\<close> is a status from 200 to 299, and \<open>response.json()\<close> either rejects
  (\<open>None\<close>) or gives the body. The host is a function of the request: it does not change
  while one operation of the client runs.
\<close>

datatype 'a response = NetworkError | Response nat "'a option"

definition ok :: "nat \<Rightarrow> bool" where
  "ok st = (200 \<le> st \<and> st \<le> 299)"

record repo_data =
  default_branch :: "string option"
  repo_empty :: bool

record item =
  item_name :: string
  item_type :: string
  item_size :: "int option"
  item_path :: string
  item_sha :: "string option"

record change =
  filename :: "string option"
  status :: string
  sha :: "string option"
  additions :: "int option"
  deletions :: "int option"

record compare_data =
  cmp_files :: "change list option"
  cmp_commits :: "string list option"

record changes =
  changed_files :: "change list"
  changed_commits :: "string list"

text \<open>
  The endpoints the client calls. A branch body is the \<open>commit.id\<close> it carries, if any;
  a history body is the list of the commits' \<open>sha\<close>.
\<close>

record remote =
  giteaHost :: string
  giteaToken :: string
  branches :: "string \<Rightarrow> string \<Rightarrow> string option response"
  commits :: "string \<Rightarrow> string \<Rightarrow> string list response"
  repo_info :: "string \<Rightarrow> repo_data response"
  contents :: "string \<Rightarrow> string \<Rightarrow> item list response"
  compare_commits :: "string \<Rightarrow> string \<Rightarrow> string \<Rightarrow> compare_data response"
  trees :: "string \<Rightarrow> item list option response"

datatype request =
    GetBranch string string
  | GetCommits string string
  | GetRepo string
  | GetContents string string
  | GetCompare string string string
  | GetTree string

section \<open>Version resolution: \<open>getLatestCommitSha\<close>\<close>

text \<open>
  What one strategy gives: \<open>Fails\<close> when \<open>fetch\<close> or \<open>response.json()\<close> throws (the
  function's \<open>catch\<close> then returns \<open>null\<close>), \<open>Nothing\<close> when the answer is not usable and
  the code falls through, \<open>Found\<close> when it returns.
\<close>

datatype step = Fails | Nothing | Found string

definition branch_step :: "string option response \<Rightarrow> step" where
  "branch_step resp =
     (case resp of
        NetworkError \<Rightarrow> Fails
      | Response st body \<Rightarrow>
          if ok st then
            (case body of
               None \<Rightarrow> Fails
             | Some None \<Rightarrow> Nothing
             | Some (Some cid) \<Rightarrow> if cid \<noteq> [] then Found cid else Nothing)
          else Nothing)"

definition commits_step :: "string list response \<Rightarrow> step" where
  "commits_step resp =
     (case resp of
        NetworkError \<Rightarrow> Fails
      | Response st body \<Rightarrow>
          if ok st then
            (case body of
               None \<Rightarrow> Fails
             | Some [] \<Rightarrow> Nothing
             | Some (c # cs) \<Rightarrow> Found c)
          else Nothing)"

text \<open>
  The branches endpoint, then the commits endpoint with \<open>limit=1\<close>, for one branch. The
  source has this code twice: for the requested branch and for the default branch.
\<close>

definition resolve_branch :: "remote \<Rightarrow> string \<Rightarrow> string \<Rightarrow> step \<times> request list" where
  "resolve_branch r repo branch =
     (case branch_step (branches r repo branch) of
        Fails \<Rightarrow> (Fails, [GetBranch repo branch])
      | Found cid \<Rightarrow> (Found cid, [GetBranch repo branch])
      | Nothing \<Rightarrow>
          (commits_step (commits r repo branch), [GetBranch repo branch, GetCommits repo branch]))"

text \<open>Method 4: the listing of the root answers at all.\<close>

definition probe_contents :: "remote \<Rightarrow> int \<Rightarrow> string \<Rightarrow> string option \<times> request list" where
  "probe_contents r now repo =
     (case contents r repo [] of
        NetworkError \<Rightarrow> (None, [GetContents repo []])
      | Response st body \<Rightarrow>
          if ok st then (Some (''contents-based-'' @ show_int now), [GetContents repo []])
          else (None, [GetContents repo []]))"

text \<open>
  The result and the requests made, in order. The argument \<open>repoName\<close> (here
  \<open>repoArg\<close>) is \<open>None\<close> when the caller passes \<open>undefined\<close> or \<open>null\<close>.
\<close>

definition getLatestCommitSha ::
  "remote \<Rightarrow> int \<Rightarrow> string option \<Rightarrow> string \<Rightarrow> string option \<times> request list" where
  "getLatestCommitSha r now repoArg branch =
     (case repoArg of
        None \<Rightarrow> (None, [])
      | Some repo \<Rightarrow>
          if repo = [] then (None, [])
          else
            (case resolve_branch r repo branch of
               (Fails, tr) \<Rightarrow> (None, tr)
             | (Found c, tr) \<Rightarrow> (Some c, tr)
             | (Nothing, tr) \<Rightarrow>
                 (case repo_info r repo of
                    NetworkError \<Rightarrow> (None, tr @ [GetRepo repo])
                  | Response st body \<Rightarrow>
                      if ok st then
                        (case body of
                           None \<Rightarrow> (None, tr @ [GetRepo repo])
                         | Some repoData \<Rightarrow>
                             (case (if truthy (default_branch repoData)
                                    then resolve_branch r repo (the (default_branch repoData))
                                    else (Nothing, [])) of
                                (Fails, tr') \<Rightarrow> (None, tr @ [GetRepo repo] @ tr')
                              | (Found c, tr') \<Rightarrow> (Some c, tr @ [GetRepo repo] @ tr')
                              | (Nothing, tr') \<Rightarrow>
                                  if repo_empty repoData
                                  then (Some (''empty-repo-'' @ show_int now),
                                        tr @ [GetRepo repo] @ tr')
                                  else (case probe_contents r now repo of
                                          (res, tr'') \<Rightarrow>
                                            (res, tr @ [GetRepo repo] @ tr' @ tr''))))
                      else (case probe_contents r now repo of
                              (res, tr'') \<Rightarrow> (res, tr @ [GetRepo repo] @ tr'')))))"

section \<open>The diff: \<open>getCommitChanges\<close> and \<open>applyChangesToCache\<close>\<close>

definition refresh_needed :: changes where
  "refresh_needed =
     \<lparr>changed_files = [\<lparr>filename = None, status = ''refresh-needed'', sha = None,
                         additions = None, deletions = None\<rparr>],
      changed_commits = []\<rparr>"

text \<open>The body of the \<open>try\<close>: the value it returns, or a throw, and the requests made.\<close>

definition getCommitChanges_try ::
  "remote \<Rightarrow> string \<Rightarrow> string \<Rightarrow> string \<Rightarrow> changes completion \<times> request list" where
  "getCommitChanges_try r repo fromCommit toCommit =
     (if startsWith fromCommit ''empty-repo-'' \<or> startsWith fromCommit ''contents-based-''
         \<or> startsWith toCommit ''empty-repo-'' \<or> startsWith toCommit ''contents-based-''
      then (Returned refresh_needed, [])
      else
        (case compare_commits r repo fromCommit toCommit of
           NetworkError \<Rightarrow> (Threw, [GetCompare repo fromCommit toCommit])
         | Response st body \<Rightarrow>
             if ok st then
               (case body of
                  None \<Rightarrow> (Threw, [GetCompare repo fromCommit toCommit])
                | Some compareData \<Rightarrow>
                    (Returned
                       \<lparr>changed_files =
                          (case cmp_files compareData of None \<Rightarrow> [] | Some fs \<Rightarrow> fs),
                        changed_commits =
                          (case cmp_commits compareData of None \<Rightarrow> [] | Some cs \<Rightarrow> cs)\<rparr>,
                     [GetCompare repo fromCommit toCommit]))
             else (Returned refresh_needed, [GetCompare repo fromCommit toCommit])))"

definition getCommitChanges ::
  "remote \<Rightarrow> string \<Rightarrow> string \<Rightarrow> string \<Rightarrow> changes \<times> request list" where
  "getCommitChanges r repo fromCommit toCommit =
     (case getCommitChanges_try r repo fromCommit toCommit of
        (Threw, tr) \<Rightarrow> (refresh_needed, tr)
      | (Returned c, tr) \<Rightarrow> (c, tr))"

text \<open>\<open>findIndex\<close> and \<open>splice(index, 1)\<close>: the first element that matches is removed.\<close>

fun remove_first :: "('a \<Rightarrow> bool) \<Rightarrow> 'a list \<Rightarrow> 'a list" where
  "remove_first P [] = []"
| "remove_first P (x # xs) = (if P x then xs else x # remove_first P xs)"

definition updateFileInCache :: "entry list \<Rightarrow> change \<Rightarrow> string \<Rightarrow> int \<Rightarrow> entry list" where
  "updateFileInCache fs c fullPath now =
     (let fileName = last_segment fullPath;
          fs1 = remove_first (\<lambda>f. entry_name f = fileName) fs
      in fs1 @
         [\<lparr>entry_id = (if truthy (sha c) then sha c else Some (show_int now)),
           entry_name = fileName,
           entry_type = ''file'',
           entry_size = (case (additions c, deletions c) of
                           (Some a, Some d) \<Rightarrow> Some (a + d)
                         | _ \<Rightarrow> None),
           entry_path = fullPath,
           download_url = None,
           repository = None,
           entry_sha = sha c,
           created_at = now,
           updated_at = now\<rparr>])"

definition removeFileFromCache ::
  "entry list \<Rightarrow> entry list \<Rightarrow> string \<Rightarrow> entry list \<times> entry list" where
  "removeFileFromCache fs ds relativePath =
     (let fileName = last_segment relativePath
      in (remove_first (\<lambda>f. entry_name f = fileName) fs,
          remove_first (\<lambda>f. entry_name f = fileName) ds))"

text \<open>
  One round of the loop of \<open>applyChangesToCache\<close>. A change without \<open>filename\<close> (the
  refresh marker) makes \<open>startsWith\<close> or \<open>includes\<close> throw a \<open>TypeError\<close>.
\<close>

definition applyChange ::
  "string \<Rightarrow> int \<Rightarrow> change \<Rightarrow> entry list \<Rightarrow> entry list \<Rightarrow> (entry list \<times> entry list) completion"
  where
  "applyChange dir now c fs ds =
     (case filename c of
        None \<Rightarrow> Threw
      | Some filePath \<Rightarrow>
          (let pathPrefix = (if dir \<noteq> [] then dir @ ''/'' else [])
           in if dir \<noteq> [] \<and> \<not> startsWith filePath pathPrefix then Returned (fs, ds)
              else
                (let relativePath =
                       (if dir \<noteq> [] then substring filePath (length pathPrefix) else filePath)
                 in if includes_str relativePath ''/'' then Returned (fs, ds)
                    else if status c = ''added'' \<or> status c = ''modified'' then
                      (if length (split_on CHR ''/'' relativePath) = 1
                       then Returned (updateFileInCache fs c filePath now, ds)
                       else Returned (fs, ds))
                    else if status c = ''removed''
                    then Returned (removeFileFromCache fs ds relativePath)
                    else Returned (fs, ds))))"

text \<open>
  The loop mutates the arrays of \<open>cachedData\<close> in place, so the \<open>catch\<close>, which returns
  \<open>cachedData\<close>, returns the lists as patched up to the change that threw.
\<close>

fun applyChangesToCache ::
  "string \<Rightarrow> int \<Rightarrow> change list \<Rightarrow> entry list \<Rightarrow> entry list \<Rightarrow> entry list \<times> entry list" where
  "applyChangesToCache dir now [] fs ds = (fs, ds)"
| "applyChangesToCache dir now (c # cs) fs ds =
     (case applyChange dir now c fs ds of
        Threw \<Rightarrow> (fs, ds)
      | Returned (fs', ds') \<Rightarrow> applyChangesToCache dir now cs fs' ds')"

section \<open>Search relevance: \<open>calculateMatchScore\<close>\<close>

text \<open>
  The source adds to a running \<open>score\<close>: one of the three name tiers (an
  \<open>if / else if / else if\<close> chain on the lower-cased name and term), the bonus for
  shallow origin paths, and the bonus for a match of the raw name. The function has no
  \<open>caseSensitive\<close> parameter.
\<close>

definition calculateMatchScore :: "js_lib \<Rightarrow> string \<Rightarrow> string \<Rightarrow> string \<Rightarrow> int" where
  "calculateMatchScore lib itemName searchTerm dir =
     (let normalizedName = toLowerCase lib itemName;
          normalizedSearch = toLowerCase lib searchTerm;
          score0 = (if normalizedName = normalizedSearch then 100
                    else if startsWith normalizedName normalizedSearch then 50
                    else if includes_str normalizedName normalizedSearch then 25
                    else 0);
          pathDepth = (if dir \<noteq> [] then int (length (split_on CHR ''/'' dir)) else 0);
          score1 = score0 + max 0 (10 - pathDepth);
          score2 = (if includes_str itemName searchTerm then score1 + 5 else score1)
      in score2)"

section \<open>Fetching a folder for the cache: \<open>fetchAndCacheFolderData\<close>\<close>

definition to_file_entry :: "remote \<Rightarrow> string \<Rightarrow> int \<Rightarrow> item \<Rightarrow> entry" where
  "to_file_entry r repo now i =
     \<lparr>entry_id = item_sha i,
      entry_name = item_name i,
      entry_type = ''file'',
      entry_size = item_size i,
      entry_path = item_path i,
      download_url = Some (giteaHost r @ ''/associateattorney/'' @ repo @ ''/raw/branch/main/''
                           @ item_path i @ ''?token='' @ giteaToken r),
      repository = Some (''associateattorney/'' @ repo),
      entry_sha = item_sha i,
      created_at = now,
      updated_at = now\<rparr>"

definition to_folder_entry :: "string \<Rightarrow> int \<Rightarrow> item \<Rightarrow> entry" where
  "to_folder_entry repo now i =
     \<lparr>entry_id = item_sha i,
      entry_name = item_name i,
      entry_type = ''dir'',
      entry_size = None,
      entry_path = item_path i,
      download_url = None,
      repository = Some (''associateattorney/'' @ repo),
      entry_sha = None,
      created_at = now,
      updated_at = now\<rparr>"

text \<open>
  The result (\<open>None\<close> for \<open>null\<close>), the store after the call and the requests made. The
  \<open>catch\<close> returns \<open>null\<close> when \<open>fetch\<close> or \<open>response.json()\<close> throws. In this and
  in the other operations that wait for the host, the clock is read as the one value
  \<open>now\<close> for the whole call.
\<close>

definition fetchAndCacheFolderData ::
  "remote \<Rightarrow> cache_state \<Rightarrow> int \<Rightarrow> string option \<Rightarrow> string
     \<Rightarrow> (entry list \<times> entry list) option \<times> cache_state \<times> request list" where
  "fetchAndCacheFolderData r st now repoArg folderPath =
     (case repoArg of
        None \<Rightarrow> (None, st, [])
      | Some repo \<Rightarrow>
          if repo = [] then (None, st, [])
          else
            (case contents r repo folderPath of
               NetworkError \<Rightarrow> (None, st, [GetContents repo folderPath])
             | Response stat body \<Rightarrow>
                 if \<not> ok stat then (None, st, [GetContents repo folderPath])
                 else
                   (case body of
                      None \<Rightarrow> (None, st, [GetContents repo folderPath])
                    | Some its \<Rightarrow>
                        (let fs = map (to_file_entry r repo now)
                                    (filter (\<lambda>i. item_type i = ''file'') its);
                             ds = map (to_folder_entry repo now)
                                    (filter (\<lambda>i. item_type i = ''dir'') its)
                         in case getLatestCommitSha r now (Some repo) ''main'' of
                              (latest, tr) \<Rightarrow>
                                (Some (fs, ds),
                                 (if truthy latest
                                  then setCachedData st now repo folderPath latest fs ds
                                  else st),
                                 GetContents repo folderPath # tr)))))"

section \<open>Search over the cache\<close>

text \<open>\<open>Set.add\<close>: a value already present keeps its place.\<close>

definition add_to_set :: "'a \<Rightarrow> 'a list \<Rightarrow> 'a list" where
  "add_to_set x xs = (if x \<in> set xs then xs else xs @ [x])"

definition dedupe :: "'a list \<Rightarrow> 'a list" where
  "dedupe xs = fold add_to_set xs []"

text \<open>
  The match of a storage key against \<open>^gitea_repo_cache_<repo>_(.+)$\<close>, for a key that
  starts with the literal prefix: the rest of the key is captured when it is not empty and
  has no line break (\<open>.\<close> does not match one). The repository name goes into the pattern as
  it is, so this is the match for names of letters, digits, \<open>_\<close>, \<open>-\<close> and \<open>.\<close>.
\<close>

definition key_path :: "string \<Rightarrow> string \<Rightarrow> string option" where
  "key_path repo key =
     (let rest = drop (length (CACHE_PREFIX @ repo @ ''_'')) key
      in if rest \<noteq> [] \<and> CHR 0x0A \<notin> set rest \<and> CHR 0x0D \<notin> set rest
         then Some (if rest = ''root'' then [] else rest)
         else None)"

text \<open>
  The paths are a \<open>Set\<close>: those of the memory entries of the repository first (a path may be
  \<open>undefined\<close>), then those read off the storage keys. \<open>Object.keys(localStorage)\<close> throws
  when storage access is denied, and the \<open>catch\<close> returns the empty list.
\<close>

definition getAllCachedPaths :: "cache_state \<Rightarrow> string \<Rightarrow> string option list" where
  "getAllCachedPaths st repo =
     (if getItem_throws (localStorage st) then []
      else
        (let fromMemory =
               fold (\<lambda>kv paths. if repoName (snd kv) = Some repo
                                  then add_to_set (path (snd kv)) paths else paths)
                 (memoryCache st) [];
             repoKeys = filter (\<lambda>key. startsWith key (CACHE_PREFIX @ repo @ ''_''))
                          (map fst (items (localStorage st)))
         in fold (\<lambda>key paths. case key_path repo key of
                                  None \<Rightarrow> paths
                                | Some p \<Rightarrow> add_to_set (Some p) paths)
              repoKeys fromMemory))"

record search_options =
  includeFiles :: "bool option"
  includeFolders :: "bool option"
  caseSensitive :: "bool option"
  maxResults :: "int option"

text \<open>The defaults of the destructuring: \<open>true\<close>, \<open>true\<close>, \<open>false\<close>.\<close>

definition opt_includeFiles :: "search_options \<Rightarrow> bool" where
  "opt_includeFiles opts = (case includeFiles opts of None \<Rightarrow> True | Some b \<Rightarrow> b)"

definition opt_includeFolders :: "search_options \<Rightarrow> bool" where
  "opt_includeFolders opts = (case includeFolders opts of None \<Rightarrow> True | Some b \<Rightarrow> b)"

definition opt_caseSensitive :: "search_options \<Rightarrow> bool" where
  "opt_caseSensitive opts = (case caseSensitive opts of None \<Rightarrow> False | Some b \<Rightarrow> b)"

datatype found = FromListing entry | FromTree item

record hit =
  hit_item :: found
  searchPath :: "string option"
  fullPath :: string
  matchType :: string
  matchScore :: int

definition normalize_case :: "js_lib \<Rightarrow> bool \<Rightarrow> string \<Rightarrow> string" where
  "normalize_case lib cs s = (if cs then s else toLowerCase lib s)"

definition name_matches :: "js_lib \<Rightarrow> search_options \<Rightarrow> string \<Rightarrow> string \<Rightarrow> bool" where
  "name_matches lib opts searchTerm name =
     includes_str (normalize_case lib (opt_caseSensitive opts) name)
       (normalize_case lib (opt_caseSensitive opts) searchTerm)"

text \<open>The hits of one cached listing: the entries whose name contains the term.\<close>

definition listing_hits ::
  "js_lib \<Rightarrow> search_options \<Rightarrow> string \<Rightarrow> string option \<Rightarrow> string \<Rightarrow> entry list \<Rightarrow> hit list" where
  "listing_hits lib opts searchTerm p mtype es =
     map (\<lambda>e. \<lparr>hit_item = FromListing e,
               searchPath = p,
               fullPath = (if truthy p then the p @ ''/'' @ entry_name e else entry_name e),
               matchType = mtype,
               matchScore = calculateMatchScore lib (entry_name e) searchTerm
                              (case p of None \<Rightarrow> [] | Some d \<Rightarrow> d)\<rparr>)
       (filter (\<lambda>e. name_matches lib opts searchTerm (entry_name e)) es)"

text \<open>
  The loop over the cached paths. Each round reads the store, which may delete or promote
  an entry, so the store is threaded through.
\<close>

fun search_paths ::
  "js_lib \<Rightarrow> cache_state \<Rightarrow> int \<Rightarrow> string \<Rightarrow> string \<Rightarrow> search_options \<Rightarrow> string option list \<Rightarrow> hit list
     \<Rightarrow> hit list \<times> cache_state" where
  "search_paths lib st now repo searchTerm opts [] results = (results, st)"
| "search_paths lib st now repo searchTerm opts (p # ps) results =
     (case getCachedData st now repo (case p of None \<Rightarrow> [] | Some d \<Rightarrow> d) of
        (None, st1) \<Rightarrow> search_paths lib st1 now repo searchTerm opts ps results
      | (Some cachedData, st1) \<Rightarrow>
          search_paths lib st1 now repo searchTerm opts ps
            (results
             @ (if opt_includeFiles opts
                then listing_hits lib opts searchTerm p ''file''
                       (case files cachedData of None \<Rightarrow> [] | Some fs \<Rightarrow> fs)
                else [])
             @ (if opt_includeFolders opts
                then listing_hits lib opts searchTerm p ''folder''
                       (case folders cachedData of None \<Rightarrow> [] | Some ds \<Rightarrow> ds)
                else [])))"

text \<open>
  The comparator of \<open>results.sort\<close>. \<open>localeCompare\<close> is the host's collation of two
  strings, a parameter of the model.
\<close>

definition compare_hits :: "(string \<Rightarrow> string \<Rightarrow> int) \<Rightarrow> hit \<Rightarrow> hit \<Rightarrow> int" where
  "compare_hits localeCompare a b =
     (if matchScore b \<noteq> matchScore a then matchScore b - matchScore a
      else
        (let aDepth = int (length (split_on CHR ''/'' (fullPath a)));
             bDepth = int (length (split_on CHR ''/'' (fullPath b)))
         in if aDepth \<noteq> bDepth then aDepth - bDepth
            else localeCompare (fullPath a) (fullPath b)))"

text \<open>\<open>Array.prototype.sort\<close> is stable; it is modelled by the stable insertion sort.\<close>

fun insert_sorted :: "('a \<Rightarrow> 'a \<Rightarrow> int) \<Rightarrow> 'a \<Rightarrow> 'a list \<Rightarrow> 'a list" where
  "insert_sorted cmp x [] = [x]"
| "insert_sorted cmp x (y # ys) =
     (if cmp x y \<le> 0 then x # y # ys else y # insert_sorted cmp x ys)"

definition js_sort :: "('a \<Rightarrow> 'a \<Rightarrow> int) \<Rightarrow> 'a list \<Rightarrow> 'a list" where
  "js_sort cmp xs = foldr (insert_sorted cmp) xs []"

text \<open>\<open>xs.slice(0, n)\<close>: a negative \<open>n\<close> counts from the end.\<close>

definition slice0 :: "'a list \<Rightarrow> int \<Rightarrow> 'a list" where
  "slice0 xs n = (if n < 0 then take (nat (int (length xs) + n)) xs else take (nat n) xs)"

definition searchCachedData ::
  "js_lib \<Rightarrow> (string \<Rightarrow> string \<Rightarrow> int) \<Rightarrow> cache_state \<Rightarrow> int \<Rightarrow> string \<Rightarrow> string \<Rightarrow> search_options
     \<Rightarrow> hit list \<times> cache_state" where
  "searchCachedData lib localeCompare st now repo searchTerm opts =
     (let maxR = (case maxResults opts of None \<Rightarrow> 100 | Some m \<Rightarrow> m);
          cachedPaths = getAllCachedPaths st repo
      in case search_paths lib st now repo searchTerm opts cachedPaths [] of
           (results, st1) \<Rightarrow> (slice0 (js_sort (compare_hits localeCompare) results) maxR, st1))"

section \<open>Enhanced search: \<open>searchCachedDataEnhanced\<close>\<close>

definition getAllRepositoryContents :: "remote \<Rightarrow> string \<Rightarrow> item list option \<times> request list" where
  "getAllRepositoryContents r repo =
     (case trees r repo of
        NetworkError \<Rightarrow> (None, [GetTree repo])
      | Response stat body \<Rightarrow>
          if \<not> ok stat then (None, [GetTree repo])
          else (case body of
                  None \<Rightarrow> (None, [GetTree repo])
                | Some tree \<Rightarrow> (Some (case tree of None \<Rightarrow> [] | Some t \<Rightarrow> t), [GetTree repo])))"

text \<open>\<open>searchTerm.trim()\<close> is truthy: the trimmed term is not the empty string.\<close>

definition has_text :: "js_lib \<Rightarrow> string \<Rightarrow> bool" where
  "has_text lib s = (trim lib s \<noteq> [])"

text \<open>The folder names the search term suggests.\<close>

definition heuristic_folders :: "string \<Rightarrow> string list" where
  "heuristic_folders searchTermLower =
     (if includes_str searchTermLower ''external'' \<or> includes_str searchTermLower ''comment''
      then [''external_comments''] else [])
     @ (if includes_str searchTermLower ''doc'' \<or> includes_str searchTermLower ''pdf''
        then [''documents''] else [])
     @ (if includes_str searchTermLower ''file'' then [''files''] else [])
     @ (if includes_str searchTermLower ''image'' \<or> includes_str searchTermLower ''pic''
           \<or> includes_str searchTermLower ''screenshot''
        then [''images'', ''assets''] else [])
     @ (if includes_str searchTermLower ''data'' then [''data''] else [])
     @ (if includes_str searchTermLower ''content'' then [''content''] else [])
     @ (if includes_str searchTermLower ''src'' \<or> includes_str searchTermLower ''code''
        then [''src''] else [])
     @ (if includes_str searchTermLower ''public'' then [''public''] else [])
     @ (if includes_str searchTermLower ''private'' then [''private''] else [])
     @ (if includes_str searchTermLower ''shared'' then [''shared''] else [])"

definition fetched_file_hits ::
  "js_lib \<Rightarrow> search_options \<Rightarrow> string \<Rightarrow> string \<Rightarrow> entry list \<Rightarrow> hit list" where
  "fetched_file_hits lib opts searchTerm folderName fs =
     map (\<lambda>f. \<lparr>hit_item = FromListing f,
               searchPath = Some folderName,
               fullPath = folderName @ ''/'' @ entry_name f,
               matchType = ''file'',
               matchScore = calculateMatchScore lib (entry_name f) searchTerm folderName\<rparr>)
       (filter (\<lambda>f. name_matches lib opts searchTerm (entry_name f)) fs)"

text \<open>
  In the loop over the fetched folders the source declares an inner \<open>folderName\<close> (the
  folder's own name, case-normalised) that shadows the fetched folder's name; the paths
  and the score of a folder hit are built from the inner one.
\<close>

definition fetched_folder_hits :: "js_lib \<Rightarrow> search_options \<Rightarrow> string \<Rightarrow> entry list \<Rightarrow> hit list" where
  "fetched_folder_hits lib opts searchTerm ds =
     map (\<lambda>d. (let folderName = normalize_case lib (opt_caseSensitive opts) (entry_name d)
                in \<lparr>hit_item = FromListing d,
                    searchPath = Some folderName,
                    fullPath = folderName @ ''/'' @ entry_name d,
                    matchType = ''folder'',
                    matchScore = calculateMatchScore lib (entry_name d) searchTerm folderName\<rparr>))
       (filter (\<lambda>d. name_matches lib opts searchTerm (entry_name d)) ds)"

text \<open>
  The loop over \<open>foldersToCheck\<close>: it stops (\<open>break\<close>) as soon as \<open>results\<close> holds
  \<open>maxResults\<close> hits.
\<close>

fun fetch_folders ::
  "js_lib \<Rightarrow> remote \<Rightarrow> int \<Rightarrow> string \<Rightarrow> string \<Rightarrow> search_options \<Rightarrow> int \<Rightarrow> string list \<Rightarrow> hit list
     \<Rightarrow> cache_state \<Rightarrow> hit list \<times> cache_state \<times> request list" where
  "fetch_folders lib r now repo searchTerm opts maxR [] results st = (results, st, [])"
| "fetch_folders lib r now repo searchTerm opts maxR (folderName # rest) results st =
     (case fetchAndCacheFolderData r st now (Some repo) folderName of
        (None, st1, tr) \<Rightarrow>
          (case fetch_folders lib r now repo searchTerm opts maxR rest results st1 of
             (res, st2, tr') \<Rightarrow> (res, st2, tr @ tr'))
      | (Some (fs, ds), st1, tr) \<Rightarrow>
          (let results1 =
                 results
                 @ (if opt_includeFiles opts
                    then fetched_file_hits lib opts searchTerm folderName fs else [])
                 @ (if opt_includeFolders opts
                    then fetched_folder_hits lib opts searchTerm ds else [])
           in if int (length results1) \<ge> maxR then (results1, st1, tr)
              else
                (case fetch_folders lib r now repo searchTerm opts maxR rest results1 st1 of
                   (res, st2, tr') \<Rightarrow> (res, st2, tr @ tr'))))"

text \<open>\<open>parts.join('/')\<close>.\<close>

fun join_slash :: "string list \<Rightarrow> string" where
  "join_slash [] = []"
| "join_slash [x] = x"
| "join_slash (x # y # zs) = x @ ''/'' @ join_slash (y # zs)"

definition parent_path :: "string \<Rightarrow> string" where
  "parent_path p =
     (let pathParts = split_on CHR ''/'' p
      in if length pathParts > 1 then join_slash (butlast pathParts) else [])"

definition tree_hit :: "js_lib \<Rightarrow> string \<Rightarrow> string \<Rightarrow> item \<Rightarrow> hit" where
  "tree_hit lib searchTerm mtype i =
     \<lparr>hit_item = FromTree i,
      searchPath = Some (parent_path (item_path i)),
      fullPath = item_path i,
      matchType = mtype,
      matchScore = calculateMatchScore lib (item_name i) searchTerm (parent_path (item_path i))\<rparr>"

text \<open>The scan of the full tree listing, with the same \<open>break\<close>.\<close>

fun scan_tree :: "js_lib \<Rightarrow> string \<Rightarrow> search_options \<Rightarrow> int \<Rightarrow> item list \<Rightarrow> hit list \<Rightarrow> hit list" where
  "scan_tree lib searchTerm opts maxR [] results = results"
| "scan_tree lib searchTerm opts maxR (i # rest) results =
     (let results1 =
            results
            @ (if opt_includeFiles opts \<and> item_type i = ''file''
                  \<and> name_matches lib opts searchTerm (item_name i)
               then [tree_hit lib searchTerm ''file'' i] else []);
          results2 =
            results1
            @ (if opt_includeFolders opts \<and> item_type i = ''dir''
                  \<and> name_matches lib opts searchTerm (item_name i)
               then [tree_hit lib searchTerm ''folder'' i] else [])
      in if int (length results2) \<ge> maxR then results2
         else scan_tree lib searchTerm opts maxR rest results2)"

text \<open>
  The part of the enhanced search that fetches: the root listing if it is not cached, the
  folders to check, and the full tree when there is still no hit.
\<close>

definition enhanced_fetch ::
  "js_lib \<Rightarrow> remote \<Rightarrow> cache_state \<Rightarrow> int \<Rightarrow> string \<Rightarrow> string \<Rightarrow> search_options \<Rightarrow> int \<Rightarrow> hit list
     \<Rightarrow> hit list \<times> cache_state \<times> request list" where
  "enhanced_fetch lib r st now repo searchTerm opts maxR results =
     (let cachedPaths = getAllCachedPaths st repo
      in case getCachedData st now repo [] of
           (rootCached, st1) \<Rightarrow>
             (case (case rootCached of
                      Some c \<Rightarrow> (folders c, st1, [])
                    | None \<Rightarrow>
                        (case fetchAndCacheFolderData r st1 now (Some repo) [] of
                           (None, st2, tr) \<Rightarrow> (None, st2, tr)
                         | (Some (fs, ds), st2, tr) \<Rightarrow> (Some ds, st2, tr))) of
                (rootFolders, st2, tr1) \<Rightarrow>
                  (let subfolders = (case rootFolders of
                                       None \<Rightarrow> []
                                     | Some ds \<Rightarrow> map entry_name ds);
                       relevantFolders = subfolders @ heuristic_folders (toLowerCase lib searchTerm);
                       foldersToCheck = filter (\<lambda>folder. Some folder \<notin> set cachedPaths)
                                          (dedupe relevantFolders)
                   in case fetch_folders lib r now repo searchTerm opts maxR foldersToCheck
                             results st2 of
                        (results1, st3, tr2) \<Rightarrow>
                          if results1 = [] then
                            (case getAllRepositoryContents r repo of
                               (None, tr3) \<Rightarrow> (results1, st3, tr1 @ tr2 @ tr3)
                             | (Some allContents, tr3) \<Rightarrow>
                                 (scan_tree lib searchTerm opts maxR allContents results1, st3,
                                  tr1 @ tr2 @ tr3))
                          else (results1, st3, tr1 @ tr2))))"

text \<open>
  \<open>searchCachedDataEnhanced\<close> passes its own \<open>options\<close> object to \<open>searchCachedData\<close>,
  so the cached hits come already sorted and cut to the synchronous form's \<open>maxResults\<close>
  (100 when the option is absent); its own default is 200. Every function it calls catches
  its own errors, so the \<open>catch\<close> of the enhanced form (which falls back to
  \<open>searchCachedData\<close>) has no throw to catch for the inputs of this model.
\<close>

definition searchCachedDataEnhanced ::
  "js_lib \<Rightarrow> (string \<Rightarrow> string \<Rightarrow> int) \<Rightarrow> remote \<Rightarrow> cache_state \<Rightarrow> int \<Rightarrow> string \<Rightarrow> string
     \<Rightarrow> search_options \<Rightarrow> hit list \<times> cache_state \<times> request list" where
  "searchCachedDataEnhanced lib localeCompare r st now repo searchTerm opts =
     (let maxR = (case maxResults opts of None \<Rightarrow> 200 | Some m \<Rightarrow> m)
      in case searchCachedData lib localeCompare st now repo searchTerm opts of
           (cachedResults, st1) \<Rightarrow>
             (case (if has_text lib searchTerm \<and> int (length cachedResults) < maxR
                    then enhanced_fetch lib r st1 now repo searchTerm opts maxR cachedResults
                    else (cachedResults, st1, [])) of
                (results, st2, tr) \<Rightarrow>
                  (slice0 (js_sort (compare_hits localeCompare) results) maxR, st2, tr)))"

section \<open>Loading a directory: \<open>loadContents\<close>\<close>

text \<open>
  \<open>getLastFetchTime\<close> reads the entry through \<open>getCachedData\<close>, so it may delete or
  promote it; \<open>cachedData?.lastFetched || null\<close> turns an absent or zero time into
  \<open>null\<close>.
\<close>

definition getLastFetchTime ::
  "cache_state \<Rightarrow> int \<Rightarrow> string \<Rightarrow> string \<Rightarrow> int option \<times> cache_state" where
  "getLastFetchTime st now repo dir =
     (case getCachedData st now repo dir of
        (cachedData, st') \<Rightarrow>
          ((case cachedData of
              None \<Rightarrow> None
            | Some c \<Rightarrow>
                (case lastFetched c of
                   None \<Rightarrow> None
                 | Some t \<Rightarrow> if t \<noteq> 0 then Some t else None)),
           st'))"

text \<open>
  The part of the component's state that \<open>loadContents\<close> reads and writes:
  \<open>files.value\<close>, \<open>folders.value\<close>, \<open>currentFolder.value\<close> (its path, \<open>None\<close> for
  \<open>null\<close>, the root) and \<open>lastFetchTime.value\<close>. The model covers a call with a
  workspace selected, a complete configuration and no other request in flight; the
  notifications, the address bar and the restoring of a pending selection are left out.
\<close>

record view =
  view_files :: "entry list"
  view_folders :: "entry list"
  currentFolder :: "string option"
  lastFetchTime :: "int option"

text \<open>\<open>currentFolder.value?.path || ''\<close>.\<close>

definition current_path :: "view \<Rightarrow> string" where
  "current_path v = (case currentFolder v of None \<Rightarrow> [] | Some p \<Rightarrow> p)"

text \<open>
  \<open>updateLastFetchTime\<close> does nothing without a repository name; otherwise it reads the
  store for the current folder.
\<close>

definition updateLastFetchTime ::
  "cache_state \<Rightarrow> view \<Rightarrow> int \<Rightarrow> string \<Rightarrow> view \<times> cache_state" where
  "updateLastFetchTime st v now repo =
     (if repo \<noteq> [] then
        (case getLastFetchTime st now repo (current_path v) of
           (fetchTime, st') \<Rightarrow> (v\<lparr>lastFetchTime := fetchTime\<rparr>, st'))
      else (v, st))"

text \<open>
  \<open>loadContentsDirectly\<close>: \<open>True\<close> when the listing was loaded (also for a 404, which
  empties the view and, below the root, resets the current folder to the root and loads
  the root instead), \<open>False\<close> when the \<open>catch\<close> ran. Only the load of the requested
  path itself ends with \<open>updateLastFetchTime\<close>.
\<close>

definition loadContentsDirectly ::
  "remote \<Rightarrow> cache_state \<Rightarrow> view \<Rightarrow> int \<Rightarrow> string \<Rightarrow> string
     \<Rightarrow> bool \<times> view \<times> cache_state \<times> request list" where
  "loadContentsDirectly r st v now repo dir =
     (case contents r repo dir of
        NetworkError \<Rightarrow> (False, v, st, [GetContents repo dir])
      | Response stat body \<Rightarrow>
          if stat = 404 then
            (let v1 = v\<lparr>view_files := [], view_folders := []\<rparr>
             in if dir \<noteq> [] \<and> currentFolder v1 \<noteq> None then
                  (let v2 = v1\<lparr>currentFolder := None\<rparr>
                   in case contents r repo [] of
                        NetworkError \<Rightarrow>
                          (False, v2, st, [GetContents repo dir, GetContents repo []])
                      | Response rootStat rootBody \<Rightarrow>
                          if ok rootStat then
                            (case rootBody of
                               None \<Rightarrow>
                                 (False, v2, st, [GetContents repo dir, GetContents repo []])
                             | Some rootItems \<Rightarrow>
                                 (True,
                                  v2\<lparr>view_files :=
                                        map (to_file_entry r repo now)
                                          (filter (\<lambda>i. item_type i = ''file'') rootItems),
                                      view_folders :=
                                        map (to_folder_entry repo now)
                                          (filter (\<lambda>i. item_type i = ''dir'') rootItems)\<rparr>,
                                  st, [GetContents repo dir, GetContents repo []]))
                          else (True, v2, st, [GetContents repo dir, GetContents repo []]))
                else (True, v1, st, [GetContents repo dir]))
          else if \<not> ok stat then (False, v, st, [GetContents repo dir])
          else
            (case body of
               None \<Rightarrow> (False, v, st, [GetContents repo dir])
             | Some its \<Rightarrow>
                 (case updateLastFetchTime st
                         (v\<lparr>view_files :=
                               map (to_file_entry r repo now)
                                 (filter (\<lambda>i. item_type i = ''file'') its),
                             view_folders :=
                               map (to_folder_entry repo now)
                                 (filter (\<lambda>i. item_type i = ''dir'') its)\<rparr>)
                         now repo of
                    (v', st') \<Rightarrow> (True, v', st', [GetContents repo dir]))))"

text \<open>
  How a call of \<open>loadContents\<close> ends: by the direct load when no version could be
  resolved, from the cache, or by a fresh load (with the result of
  \<open>loadContentsDirectly\<close>).
\<close>

datatype load_outcome = Uncacheable bool | CacheHit | Fresh bool

text \<open>
  Steps 4 and 5: the fresh load; when it succeeded, the lists of the view are stored under
  the resolved token for the path of the call, and \<open>updateLastFetchTime\<close> follows.
\<close>

definition load_fresh ::
  "remote \<Rightarrow> cache_state \<Rightarrow> view \<Rightarrow> int \<Rightarrow> string \<Rightarrow> string \<Rightarrow> string option \<Rightarrow> request list
     \<Rightarrow> load_outcome \<times> view \<times> cache_state \<times> request list" where
  "load_fresh r st v now repo dir latestCommitSha tr =
     (case loadContentsDirectly r st v now repo dir of
        (freshData, v1, st1, tr') \<Rightarrow>
          if freshData then
            (case updateLastFetchTime
                    (setCachedData st1 now repo dir latestCommitSha
                       (view_files v1) (view_folders v1))
                    v1 now repo of
               (v2, st2) \<Rightarrow> (Fresh True, v2, st2, tr @ tr'))
          else (Fresh False, v1, st1, tr @ tr'))"

text \<open>\<open>loadContents\<close>, for the path of the current folder.\<close>

definition loadContents ::
  "remote \<Rightarrow> cache_state \<Rightarrow> view \<Rightarrow> int \<Rightarrow> string
     \<Rightarrow> load_outcome \<times> view \<times> cache_state \<times> request list" where
  "loadContents r st v now repo =
     (let dir = current_path v
      in case getLatestCommitSha r now (Some repo) ''main'' of
           (latestCommitSha, tr) \<Rightarrow>
             if \<not> truthy latestCommitSha then
               (case loadContentsDirectly r st v now repo dir of
                  (loaded, v1, st1, tr') \<Rightarrow> (Uncacheable loaded, v1, st1, tr @ tr'))
             else
               (case getCachedCommitSha st now repo of
                  (storedCommitSha, st1) \<Rightarrow>
                    if truthy storedCommitSha \<and> storedCommitSha = latestCommitSha then
                      (case getCachedData st1 now repo dir of
                         (Some cachedData, st2) \<Rightarrow>
                           (case updateLastFetchTime st2
                                   (v\<lparr>view_files :=
                                         (case files cachedData of None \<Rightarrow> [] | Some fs \<Rightarrow> fs),
                                       view_folders :=
                                         (case folders cachedData of None \<Rightarrow> [] | Some ds \<Rightarrow> ds)\<rparr>)
                                   now repo of
                              (v', st3) \<Rightarrow> (CacheHit, v', st3, tr))
                       | (None, st2) \<Rightarrow> load_fresh r st2 v now repo dir latestCommitSha tr)
                    else load_fresh r st1 v now repo dir latestCommitSha tr))"

section \<open>The score in the words of the specification\<close>

text \<open>
  The scoring rule in the words of the specification: the names are compared case-folded
  unless \<open>caseSensitive\<close> (here \<open>cs\<close>) is set.
\<close>

definition spec_fold :: "js_lib \<Rightarrow> bool \<Rightarrow> string \<Rightarrow> string" where
  "spec_fold lib cs s = (if cs then s else toLowerCase lib s)"

definition spec_base_tier :: "js_lib \<Rightarrow> bool \<Rightarrow> string \<Rightarrow> string \<Rightarrow> int" where
  "spec_base_tier lib cs name term =
     (if spec_fold lib cs name = spec_fold lib cs term then 100
      else if prefix (spec_fold lib cs term) (spec_fold lib cs name) then 50
      else if sublist (spec_fold lib cs term) (spec_fold lib cs name) then 25
      else 0)"

definition spec_pathDepth :: "string \<Rightarrow> int" where
  "spec_pathDepth dir = (if dir = [] then 0 else int (length (split_on CHR ''/'' dir)))"

definition spec_score :: "js_lib \<Rightarrow> bool \<Rightarrow> string \<Rightarrow> string \<Rightarrow> string \<Rightarrow> int" where
  "spec_score lib cs name term dir =
     spec_base_tier lib cs name term
     + max 0 (10 - spec_pathDepth dir)
     + (if sublist term name then 5 else 0)"

section \<open>Vocabulary of the claims and example data\<close>

text \<open>A placeholder token carries one of the two prefixes the resolution synthesises.\<close>

definition is_placeholder :: "string \<Rightarrow> bool" where
  "is_placeholder t = (startsWith t ''empty-repo-'' \<or> startsWith t ''contents-based-'')"

text \<open>A host that cannot be reached: every \<open>fetch\<close> rejects.\<close>

definition down_host :: remote where
  "down_host =
     \<lparr>giteaHost = ''https://g.example'', giteaToken = ''t0'',
      branches = (\<lambda>repo b. NetworkError),
      commits = (\<lambda>repo b. NetworkError),
      repo_info = (\<lambda>repo. NetworkError),
      contents = (\<lambda>repo p. NetworkError),
      compare_commits = (\<lambda>repo a b. NetworkError),
      trees = (\<lambda>repo. NetworkError)\<rparr>"

text \<open>The path one segment below a cache path.\<close>

definition child_path :: "string \<Rightarrow> string \<Rightarrow> string" where
  "child_path dir seg = (if dir = [] then seg else dir @ ''/'' @ seg)"

definition example_file :: "string \<Rightarrow> entry" where
  "example_file n =
     \<lparr>entry_id = Some n, entry_name = n, entry_type = ''file'', entry_size = Some 1,
      entry_path = n, download_url = None, repository = None, entry_sha = Some n,
      created_at = 0, updated_at = 0\<rparr>"

definition removed_b :: change where
  "removed_b = \<lparr>filename = Some ''dir/b.txt'', status = ''removed'', sha = None,
                 additions = None, deletions = None\<rparr>"

text \<open>The object \<open>setCachedData\<close> builds.\<close>

definition new_entry ::
  "int \<Rightarrow> string \<Rightarrow> string \<Rightarrow> string option \<Rightarrow> entry list \<Rightarrow> entry list \<Rightarrow> cache_obj" where
  "new_entry now repo dir tok fs ds =
     \<lparr>version = CACHE_VERSION, timestamp = now, lastFetched = Some now, commitSha = tok,
      path = Some dir, files = Some fs, folders = Some ds, repoName = Some repo\<rparr>"

text \<open>An empty store whose durable tier throws on every read and every write.\<close>

definition full_store :: cache_state where
  "full_store =
     \<lparr>memoryCache = [], commitCache = [],
      localStorage = \<lparr>items = [], getItem_throws = True, setItem_throws = (\<lambda>k. True)\<rparr>,
      timers = []\<rparr>"

text \<open>
  The same store with a root listing of \<open>demo\<close>, stored at time 0, in the memory tier;
  and an empty store whose durable tier holds, for the root of \<open>demo\<close>, text that
  \<open>JSON.parse\<close> rejects.
\<close>

definition expired_full_store :: cache_state where
  "expired_full_store =
     full_store\<lparr>memoryCache :=
       [(getCacheKey ''demo'' [],
         new_entry 0 ''demo'' [] (Some ''abc123'') [example_file ''x.md''] [])]\<rparr>"

definition corrupt_store :: cache_state where
  "corrupt_store =
     \<lparr>memoryCache = [], commitCache = [],
      localStorage = \<lparr>items = [(getCacheKey ''demo'' [], Corrupt)], getItem_throws = False,
                       setItem_throws = (\<lambda>k. False)\<rparr>,
      timers = []\<rparr>"

text \<open>
  A commit record written under another format version, and the store that holds it in
  the durable tier only.
\<close>

definition old_commit_record :: cache_obj where
  "old_commit_record =
     \<lparr>version = ''0.9'', timestamp = 0, lastFetched = None, commitSha = Some ''abc123'',
      path = None, files = None, folders = None, repoName = None\<rparr>"

definition old_version_store :: cache_state where
  "old_version_store =
     \<lparr>memoryCache = [], commitCache = [],
      localStorage = \<lparr>items = [(getCommitCacheKey ''demo'', Json old_commit_record)],
                       getItem_throws = False, setItem_throws = (\<lambda>k. False)\<rparr>,
      timers = []\<rparr>"

text \<open>A listing of the root stored at time 0, held in the durable tier only.\<close>

definition day_old_store :: cache_state where
  "day_old_store =
     \<lparr>memoryCache = [], commitCache = [],
      localStorage =
        \<lparr>items = [(getCacheKey ''demo'' [],
                    Json (new_entry 0 ''demo'' [] (Some ''abc123'') [example_file ''x.md''] []))],
         getItem_throws = False, setItem_throws = (\<lambda>k. False)\<rparr>,
      timers = []\<rparr>"

section \<open>The resolution in the words of the specification\<close>

text \<open>
  Steps 1 to 6 of the specification. A step that cannot be carried out (the request is
  rejected, the body cannot be read) counts as a step that returns nothing usable, and
  the next step is tried.
\<close>

definition spec_usable_branch :: "remote \<Rightarrow> string \<Rightarrow> string \<Rightarrow> string option" where
  "spec_usable_branch r repo b =
     (case branches r repo b of
        Response st (Some (Some cid)) \<Rightarrow> if ok st \<and> cid \<noteq> [] then Some cid else None
      | _ \<Rightarrow> None)"

definition spec_usable_history :: "remote \<Rightarrow> string \<Rightarrow> string \<Rightarrow> string option" where
  "spec_usable_history r repo b =
     (case commits r repo b of
        Response st (Some (c # cs)) \<Rightarrow> if ok st then Some c else None
      | _ \<Rightarrow> None)"

definition spec_branch_token :: "remote \<Rightarrow> string \<Rightarrow> string \<Rightarrow> string option" where
  "spec_branch_token r repo b =
     (case spec_usable_branch r repo b of
        Some c \<Rightarrow> Some c
      | None \<Rightarrow> spec_usable_history r repo b)"

definition spec_repo_info :: "remote \<Rightarrow> string \<Rightarrow> repo_data option" where
  "spec_repo_info r repo =
     (case repo_info r repo of
        Response st (Some d) \<Rightarrow> if ok st then Some d else None
      | _ \<Rightarrow> None)"

definition spec_probe :: "remote \<Rightarrow> int \<Rightarrow> string \<Rightarrow> string option" where
  "spec_probe r now repo =
     (case contents r repo [] of
        Response st body \<Rightarrow> if ok st then Some (''contents-based-'' @ show_int now) else None
      | NetworkError \<Rightarrow> None)"

definition spec_resolveVersion :: "remote \<Rightarrow> int \<Rightarrow> string \<Rightarrow> string \<Rightarrow> string option" where
  "spec_resolveVersion r now repo b =
     (case spec_branch_token r repo b of
        Some c \<Rightarrow> Some c
      | None \<Rightarrow>
          (case spec_repo_info r repo of
             None \<Rightarrow> spec_probe r now repo
           | Some d \<Rightarrow>
               (case (if truthy (default_branch d) \<and> default_branch d \<noteq> Some b
                      then spec_branch_token r repo (the (default_branch d)) else None) of
                  Some c \<Rightarrow> Some c
                | None \<Rightarrow>
                    if repo_empty d then Some (''empty-repo-'' @ show_int now)
                    else spec_probe r now repo)))"

text \<open>A request throws: \<open>fetch\<close> rejects, or the body of an ok answer cannot be read.\<close>

definition request_throws :: "remote \<Rightarrow> request \<Rightarrow> bool" where
  "request_throws r req =
     (case req of
        GetBranch repo b \<Rightarrow> branch_step (branches r repo b) = Fails
      | GetCommits repo b \<Rightarrow> commits_step (commits r repo b) = Fails
      | GetRepo repo \<Rightarrow>
          (case repo_info r repo of
             NetworkError \<Rightarrow> True
           | Response st body \<Rightarrow> ok st \<and> body = None)
      | GetContents repo p \<Rightarrow> contents r repo p = NetworkError
      | GetCompare repo a b \<Rightarrow> False
      | GetTree repo \<Rightarrow> False)"

text \<open>A request to the branch or history endpoint finds a commit identifier.\<close>

definition request_finds :: "remote \<Rightarrow> request \<Rightarrow> bool" where
  "request_finds r req =
     (case req of
        GetBranch repo b \<Rightarrow> spec_usable_branch r repo b \<noteq> None
      | GetCommits repo b \<Rightarrow> spec_usable_history r repo b \<noteq> None
      | _ \<Rightarrow> False)"

text \<open>
  The order of the requests of a resolution that runs to its last step: branch and history
  for the requested branch, the repository, branch and history for the default branch the
  repository reports, the root listing.
\<close>

definition resolution_order :: "remote \<Rightarrow> string \<Rightarrow> string \<Rightarrow> request list" where
  "resolution_order r repo b =
     [GetBranch repo b, GetCommits repo b, GetRepo repo]
     @ (case spec_repo_info r repo of
          None \<Rightarrow> []
        | Some d \<Rightarrow>
            if truthy (default_branch d)
            then [GetBranch repo (the (default_branch d)), GetCommits repo (the (default_branch d))]
            else [])
     @ [GetContents repo []]"

text \<open>
  A host whose branch endpoint cannot be reached while its history endpoint answers, and a
  host that serves the repository \<open>demo\<close> at commit \<open>abc123\<close> with the root listing
  \<open>x.md, docs\<close>.
\<close>

definition flaky_host :: remote where
  "flaky_host =
     \<lparr>giteaHost = ''https://g.example'', giteaToken = ''t0'',
      branches = (\<lambda>repo b. NetworkError),
      commits = (\<lambda>repo b. Response 200 (Some [''abc123''])),
      repo_info = (\<lambda>repo. Response 404 None),
      contents = (\<lambda>repo p. Response 404 None),
      compare_commits = (\<lambda>repo a b. Response 404 None),
      trees = (\<lambda>repo. Response 404 None)\<rparr>"

definition demo_items :: "item list" where
  "demo_items =
     [\<lparr>item_name = ''x.md'', item_type = ''file'', item_size = Some 12, item_path = ''x.md'',
       item_sha = Some ''s1''\<rparr>,
      \<lparr>item_name = ''docs'', item_type = ''dir'', item_size = Some 0, item_path = ''docs'',
       item_sha = Some ''s2''\<rparr>]"

definition demo_host :: remote where
  "demo_host =
     \<lparr>giteaHost = ''https://g.example'', giteaToken = ''t0'',
      branches = (\<lambda>repo b. Response 200 (Some (Some ''abc123''))),
      commits = (\<lambda>repo b. Response 200 (Some [''abc123''])),
      repo_info = (\<lambda>repo. Response 200 (Some \<lparr>default_branch = Some ''main'', repo_empty = False\<rparr>)),
      contents = (\<lambda>repo p. if p = [] then Response 200 (Some demo_items) else Response 404 None),
      compare_commits = (\<lambda>repo a b. Response 404 None),
      trees = (\<lambda>repo. Response 404 None)\<rparr>"


text \<open>
  The host answers as for a repository without commits: the branch and history endpoints
  give nothing for the branch, the repository endpoint reports \<open>empty\<close>, and the branch
  and history endpoints give nothing for the default branch it reports, if any.
\<close>

definition reports_empty :: "remote \<Rightarrow> string \<Rightarrow> string \<Rightarrow> bool" where
  "reports_empty r repo b =
     (fst (resolve_branch r repo b) = Nothing
      \<and> (case repo_info r repo of
            NetworkError \<Rightarrow> False
          | Response st body \<Rightarrow>
              (case body of
                 None \<Rightarrow> False
               | Some d \<Rightarrow>
                   ok st \<and> repo_empty d
                   \<and> (if truthy (default_branch d)
                      then fst (resolve_branch r repo (the (default_branch d))) = Nothing
                      else True))))"

definition empty_host :: remote where
  "empty_host =
     \<lparr>giteaHost = ''https://g.example'', giteaToken = ''t0'',
      branches = (\<lambda>repo b. Response 404 None),
      commits = (\<lambda>repo b. Response 200 (Some [])),
      repo_info = (\<lambda>repo. Response 200 (Some \<lparr>default_branch = Some ''main'', repo_empty = True\<rparr>)),
      contents = (\<lambda>repo p. Response 200 (Some [])),
      compare_commits = (\<lambda>repo a b. Response 404 None),
      trees = (\<lambda>repo. Response 404 None)\<rparr>"

definition empty_store :: cache_state where
  "empty_store =
     \<lparr>memoryCache = [], commitCache = [],
      localStorage = \<lparr>items = [], getItem_throws = False, setItem_throws = (\<lambda>k. False)\<rparr>,
      timers = []\<rparr>"

definition empty_view :: view where
  "empty_view =
     \<lparr>view_files = [], view_folders = [], currentFolder = None, lastFetchTime = None\<rparr>"

definition example_folder :: "string \<Rightarrow> entry" where
  "example_folder n =
     \<lparr>entry_id = Some n, entry_name = n, entry_type = ''dir'', entry_size = None,
      entry_path = n, download_url = None, repository = None, entry_sha = None,
      created_at = 0, updated_at = 0\<rparr>"

text \<open>
  The store after the root listing \<open>x.md, docs\<close> of \<open>demo\<close> was stored under a token at
  time \<open>t\<close> and the deferred write ran, the clock still reading \<open>t\<close>.
\<close>

definition stored_at :: "int \<Rightarrow> string \<Rightarrow> cache_state" where
  "stored_at t tok =
     run_timer (setCachedData empty_store t ''demo'' [] (Some tok)
                  [example_file ''x.md''] [example_folder ''docs'']) t"

text \<open>
  The host of \<open>demo\<close> after a push: the branch is at \<open>def456\<close>, the root also holds
  \<open>y.md\<close>, and the folder \<open>docs\<close> holds \<open>guide.md\<close>.
\<close>

definition moved_items :: "item list" where
  "moved_items =
     demo_items
     @ [\<lparr>item_name = ''y.md'', item_type = ''file'', item_size = Some 7, item_path = ''y.md'',
          item_sha = Some ''s3''\<rparr>]"

definition docs_items :: "item list" where
  "docs_items =
     [\<lparr>item_name = ''guide.md'', item_type = ''file'', item_size = Some 9,
       item_path = ''docs/guide.md'', item_sha = Some ''s4''\<rparr>]"

definition moved_host :: remote where
  "moved_host =
     demo_host\<lparr>branches := (\<lambda>repo b. Response 200 (Some (Some ''def456''))),
               commits := (\<lambda>repo b. Response 200 (Some [''def456'', ''abc123''])),
               contents := (\<lambda>repo p. if p = [] then Response 200 (Some moved_items)
                                       else if p = ''docs'' then Response 200 (Some docs_items)
                                       else Response 404 None)\<rparr>"

text \<open>The parts of what \<open>loadContents\<close> returns.\<close>

definition outcome_of :: "load_outcome \<times> view \<times> cache_state \<times> request list \<Rightarrow> load_outcome" where
  "outcome_of l = fst l"

definition view_of :: "load_outcome \<times> view \<times> cache_state \<times> request list \<Rightarrow> view" where
  "view_of l = fst (snd l)"

definition store_of :: "load_outcome \<times> view \<times> cache_state \<times> request list \<Rightarrow> cache_state" where
  "store_of l = fst (snd (snd l))"

definition requests_of :: "load_outcome \<times> view \<times> cache_state \<times> request list \<Rightarrow> request list" where
  "requests_of l = snd (snd (snd l))"

text \<open>
  Three loads of one session. At time 5 the root is loaded with nothing stored, and the
  deferred write runs. The host moves; at time 6 the folder \<open>docs\<close> has been opened and is
  loaded, and the deferred write runs. At time 7 the view is back at the root, which is
  loaded again.
\<close>

definition root_load :: "load_outcome \<times> view \<times> cache_state \<times> request list" where
  "root_load = loadContents demo_host empty_store empty_view 5 ''demo''"

definition docs_load :: "load_outcome \<times> view \<times> cache_state \<times> request list" where
  "docs_load =
     loadContents moved_host (run_timer (store_of root_load) 5)
       ((view_of root_load)\<lparr>currentFolder := Some ''docs''\<rparr>) 6 ''demo''"

definition root_reload :: "load_outcome \<times> view \<times> cache_state \<times> request list" where
  "root_reload =
     loadContents moved_host (run_timer (store_of docs_load) 6)
       ((view_of docs_load)\<lparr>currentFolder := None\<rparr>) 7 ''demo''"

section \<open>Vocabulary of the ranking\<close>

text \<open>One hit is ranked before, or level with, another by the comparator of the sort.\<close>

definition ranks_before :: "(string \<Rightarrow> string \<Rightarrow> int) \<Rightarrow> hit \<Rightarrow> hit \<Rightarrow> bool" where
  "ranks_before localeCompare a b = (compare_hits localeCompare a b \<le> 0)"

text \<open>
  The ranking in the words of the specification: descending score, then ascending number
  of segments of the full path, then the comparison of the full paths.
\<close>

definition segment_count :: "string \<Rightarrow> nat" where
  "segment_count p = length (split_on CHR ''/'' p)"

definition spec_ranks_before :: "(string \<Rightarrow> string \<Rightarrow> int) \<Rightarrow> hit \<Rightarrow> hit \<Rightarrow> bool" where
  "spec_ranks_before localeCompare a b =
     (matchScore a > matchScore b
      \<or> (matchScore a = matchScore b
         \<and> (segment_count (fullPath a) < segment_count (fullPath b)
            \<or> (segment_count (fullPath a) = segment_count (fullPath b)
               \<and> localeCompare (fullPath a) (fullPath b) \<le> 0))))"

text \<open>
  What the sort needs of \<open>localeCompare\<close>: of two strings one is not after the other, and
  "not after" is transitive.
\<close>

definition consistent :: "(string \<Rightarrow> string \<Rightarrow> int) \<Rightarrow> bool" where
  "consistent localeCompare =
     ((\<forall>a b. localeCompare a b \<le> 0 \<or> localeCompare b a \<le> 0)
      \<and> (\<forall>a b c. localeCompare a b \<le> 0 \<and> localeCompare b c \<le> 0 \<longrightarrow> localeCompare a c \<le> 0))"

text \<open>All the hits of the cached listings, before the sort.\<close>

definition all_cached_hits ::
  "js_lib \<Rightarrow> cache_state \<Rightarrow> int \<Rightarrow> string \<Rightarrow> string \<Rightarrow> search_options \<Rightarrow> hit list" where
  "all_cached_hits lib st now repo searchTerm opts =
     fst (search_paths lib st now repo searchTerm opts (getAllCachedPaths st repo) [])"

text \<open>A collation for the examples: the order of the character codes.\<close>

definition code_order :: "string \<Rightarrow> string \<Rightarrow> int" where
  "code_order a b = (if a = b then 0 else if a < b then - 1 else 1)"

text \<open>
  A host of \<open>demo\<close> at \<open>abc123\<close> whose root holds the folders \<open>a\<close> and \<open>b\<close>; \<open>a\<close>
  holds the file \<open>xreport\<close>, \<open>b\<close> the file \<open>report\<close>.
\<close>

definition folder_item :: "string \<Rightarrow> item" where
  "folder_item n =
     \<lparr>item_name = n, item_type = ''dir'', item_size = Some 0, item_path = n, item_sha = Some n\<rparr>"

definition file_item :: "string \<Rightarrow> string \<Rightarrow> item" where
  "file_item d n =
     \<lparr>item_name = n, item_type = ''file'', item_size = Some 1, item_path = d @ ''/'' @ n,
      item_sha = Some n\<rparr>"

definition search_host :: remote where
  "search_host =
     demo_host\<lparr>contents :=
       (\<lambda>repo p. if p = [] then Response 200 (Some [folder_item ''a'', folder_item ''b''])
                  else if p = ''a'' then Response 200 (Some [file_item ''a'' ''xreport''])
                  else if p = ''b'' then Response 200 (Some [file_item ''b'' ''report''])
                  else Response 404 None)\<rparr>"

definition at_most :: "int \<Rightarrow> search_options" where
  "at_most m =
     \<lparr>includeFiles = None, includeFolders = None, caseSensitive = None, maxResults = Some m\<rparr>"

text \<open>
  A library for the examples: \<open>toLowerCase\<close> folds the letters \<open>A\<close> to \<open>Z\<close> and
  \<open>trim\<close> removes the ASCII white space at both ends, as the JavaScript functions do on
  ASCII text.
\<close>

definition toLowerCase_char :: "char \<Rightarrow> char" where
  "toLowerCase_char c =
     (let n = (of_char c :: nat)
      in if 65 \<le> n \<and> n \<le> 90 then char_of (n + 32) else c)"

definition is_space :: "char \<Rightarrow> bool" where
  "is_space c = (c \<in> set [CHR '' '', CHR 0x09, CHR 0x0A, CHR 0x0B, CHR 0x0C, CHR 0x0D])"

definition ascii_lib :: js_lib where
  "ascii_lib =
     \<lparr>toLowerCase = map toLowerCase_char,
      trim = (\<lambda>s. rev (dropWhile is_space (rev (dropWhile is_space s))))\<rparr>"

text \<open>A cached root listing that holds the one file \<open>aA\<close>, and a case-sensitive search.\<close>

definition letters_store :: cache_state where
  "letters_store =
     run_timer (setCachedData empty_store 5 ''demo'' [] (Some ''abc123'')
                  [example_file ''aA''] []) 5"

definition case_sensitive :: search_options where
  "case_sensitive =
     \<lparr>includeFiles = None, includeFolders = None, caseSensitive = Some True, maxResults = None\<rparr>"

section \<open>Properties of the score\<close>

text \<open>
  Claim C6, as the code has it: the score is one base tier (100 for equality, else 50 for
  a prefix, else 25 for containment, else 0), always compared on the lower-cased name and
  term (whatever \<open>toLowerCase\<close> does to them, and whatever the \<open>caseSensitive\<close> option
  says), plus \<open>max 0 (10 - pathDepth)\<close> with
  \<open>pathDepth\<close> the number of segments of the origin path (0 for the root), plus 5 when
  the raw name contains the raw term.
\<close>

theorem calculateMatchScore_folded:
  "calculateMatchScore lib name term dir = spec_score lib False name term dir"
  by (simp add: calculateMatchScore_def spec_score_def spec_base_tier_def spec_fold_def
      spec_pathDepth_def startsWith_def includes_str_def Let_def)

text \<open>
  Claim C6 as stated fails when \<open>caseSensitive\<close> is set: the name \<open>aA\<close> contains the
  term \<open>A\<close>, so it is a hit of a case-sensitive search, and the raw name does not start
  with the term; yet the code scores the prefix tier, because it compares \<open>aa\<close> with \<open>a\<close>
  (the example library folds the ASCII letters, as \<open>String.prototype.toLowerCase\<close> does):
  65 against the 40 of the case-sensitive rule. The hit of the case-sensitive search over
  a cached listing that holds \<open>aA\<close> carries the score 65.
\<close>

theorem calculateMatchScore_caseSensitive_counterexample:
  "calculateMatchScore ascii_lib ''aA'' ''A'' [] = 65
   \<and> spec_score ascii_lib True ''aA'' ''A'' [] = 40
   \<and> map matchScore (fst (searchCachedData ascii_lib code_order letters_store 7 ''demo'' ''A''
                            case_sensitive)) = [65]"
  by code_simp

section \<open>Properties of the diff request\<close>

text \<open>
  Claim C4: \<open>getCommitChanges\<close> returns the refresh marker, and nothing else, whenever
  one of the two tokens is a placeholder (then without any request), the compare request
  is rejected, answers with a status that is not ok, or its body cannot be read; a throw
  inside the \<open>try\<close> always ends in the marker.
\<close>

theorem getCommitChanges_refresh_needed:
  "(is_placeholder fromCommit \<or> is_placeholder toCommit
      \<longrightarrow> getCommitChanges r repo fromCommit toCommit = (refresh_needed, []))
   \<and> (compare_commits r repo fromCommit toCommit = NetworkError
      \<longrightarrow> fst (getCommitChanges r repo fromCommit toCommit) = refresh_needed)
   \<and> (\<forall>st body. compare_commits r repo fromCommit toCommit = Response st body
         \<and> (\<not> ok st \<or> body = None)
      \<longrightarrow> fst (getCommitChanges r repo fromCommit toCommit) = refresh_needed)
   \<and> (fst (getCommitChanges_try r repo fromCommit toCommit) = Threw
      \<longrightarrow> fst (getCommitChanges r repo fromCommit toCommit) = refresh_needed)"
  by (auto simp: getCommitChanges_def getCommitChanges_try_def is_placeholder_def
      split: response.splits option.splits prod.splits completion.splits)

theorem getCommitChanges_refresh_needed_witness:
  "getCommitChanges down_host ''demo'' ''empty-repo-5'' ''abc123'' = (refresh_needed, [])
   \<and> fst (getCommitChanges down_host ''demo'' ''abc123'' ''def456'') = refresh_needed"
  using getCommitChanges_refresh_needed [of "''empty-repo-5''" "''abc123''" down_host "''demo''"]
    getCommitChanges_refresh_needed [of "''abc123''" "''def456''" down_host "''demo''"]
  by (simp add: is_placeholder_def startsWith_def down_host_def)

section \<open>Properties of the repository-name check\<close>

text \<open>
  Claim C10: with a missing (\<open>undefined\<close>, \<open>null\<close>) or empty repository name,
  \<open>getLatestCommitSha\<close> and \<open>fetchAndCacheFolderData\<close> return \<open>null\<close>, make no request
  and leave the store as it is.
\<close>

theorem missing_repoName_returns_null:
  "repoArg = None \<or> repoArg = Some [] \<Longrightarrow>
     getLatestCommitSha r now repoArg branch = (None, [])
     \<and> fetchAndCacheFolderData r st now repoArg folderPath = (None, st, [])"
  by (auto simp: getLatestCommitSha_def fetchAndCacheFolderData_def)

theorem missing_repoName_returns_null_witness:
  "getLatestCommitSha down_host 5 (Some []) ''main'' = (None, [])
   \<and> fetchAndCacheFolderData down_host
        \<lparr>memoryCache = [], commitCache = [],
         localStorage = \<lparr>items = [], getItem_throws = False, setItem_throws = (\<lambda>k. False)\<rparr>,
         timers = []\<rparr> 5 (Some []) ''docs''
       = (None,
          \<lparr>memoryCache = [], commitCache = [],
           localStorage = \<lparr>items = [], getItem_throws = False, setItem_throws = (\<lambda>k. False)\<rparr>,
           timers = []\<rparr>, [])"
  using missing_repoName_returns_null [of "Some []" down_host 5 "''main''" _ "''docs''"]
  by simp

section \<open>Properties of the patch\<close>

lemma split_on_not_Nil: "split_on c s \<noteq> []"
  by (induction s) (auto split: list.splits)

lemma split_on_no_sep: "c \<notin> set s \<Longrightarrow> split_on c s = [s]"
  by (induction s) auto

lemma split_on_append:
  "split_on c (xs @ c # ys) = split_on c xs @ split_on c ys"
proof (induction xs)
  case Nil
  then show ?case by simp
next
  case (Cons x xs)
  obtain w ws where w: "split_on c xs = w # ws"
    using split_on_not_Nil [of c xs] by (cases "split_on c xs") auto
  show ?case using Cons w by simp
qed

lemma last_split_on_append:
  "last (split_on c (xs @ c # ys)) = last (split_on c ys)"
  by (simp add: split_on_append split_on_not_Nil)

lemma last_segment_child:
  "CHR ''/'' \<notin> set seg \<Longrightarrow> last_segment (child_path dir seg) = seg"
  using last_split_on_append [of "CHR ''/''" dir seg]
  by (simp add: last_segment_def child_path_def split_on_no_sep)

lemma includes_str_single: "includes_str s [c] \<longleftrightarrow> c \<in> set s"
  unfolding includes_str_def
  by (induction s) (auto simp: sublist_Cons_right)

lemma remove_first_distinct:
  "distinct (map f xs) \<Longrightarrow> v \<notin> f ` set (remove_first (\<lambda>e. f e = v) xs)"
  by (induction xs) auto

lemma applyChange_not_child:
  assumes "filename c = Some f" and "\<forall>seg. f = child_path dir seg \<longrightarrow> CHR ''/'' \<in> set seg"
  shows "applyChange dir now c fs ds = Returned (fs, ds)"
proof (cases "dir = []")
  case True
  then have "f = child_path dir f" by (simp add: child_path_def)
  then have "CHR ''/'' \<in> set f" using assms(2) by blast
  then have "includes_str f ''/''" by (simp add: includes_str_single)
  then show ?thesis using assms(1) True by (simp add: applyChange_def)
next
  case False
  show ?thesis
  proof (cases "startsWith f (dir @ ''/'')")
    case no: False
    then show ?thesis using assms(1) False by (simp add: applyChange_def)
  next
    case yes: True
    define rel where "rel = substring f (length (dir @ ''/''))"
    have "f = child_path dir rel"
      using yes False by (auto simp: rel_def child_path_def startsWith_def substring_def prefix_def)
    then have "CHR ''/'' \<in> set rel" using assms(2) by blast
    then have "includes_str rel ''/''" by (simp add: includes_str_single)
    then show ?thesis using assms(1) False yes
      by (simp add: applyChange_def rel_def)
  qed
qed

lemma applyChange_child:
  assumes "filename c = Some (child_path dir seg)" and "CHR ''/'' \<notin> set seg"
  shows "applyChange dir now c fs ds =
           (if status c = ''added'' \<or> status c = ''modified''
            then Returned (updateFileInCache fs c (child_path dir seg) now, ds)
            else if status c = ''removed'' then Returned (removeFileFromCache fs ds seg)
            else Returned (fs, ds))"
  using assms
  by (simp add: applyChange_def child_path_def startsWith_def substring_def
      includes_str_single split_on_no_sep Let_def)

lemma updateFileInCache_child:
  assumes "CHR ''/'' \<notin> set seg" and "additions c = Some a" and "deletions c = Some d"
  shows "\<exists>new. updateFileInCache fs c (child_path dir seg) now
                  = remove_first (\<lambda>e. entry_name e = seg) fs @ [new]
               \<and> entry_name new = seg \<and> entry_size new = Some (a + d)
               \<and> entry_path new = child_path dir seg \<and> entry_sha new = sha c"
  using assms by (simp add: updateFileInCache_def last_segment_child)

lemma removeFileFromCache_child:
  "CHR ''/'' \<notin> set seg \<Longrightarrow>
     removeFileFromCache fs ds seg
       = (remove_first (\<lambda>e. entry_name e = seg) fs, remove_first (\<lambda>e. entry_name e = seg) ds)"
  using last_segment_child [of seg "[]"]
  by (simp add: removeFileFromCache_def child_path_def)

text \<open>
  Claim C5: for a change \<open>c\<close> with file name \<open>f\<close> at the head of the change set,
  \<^item> when \<open>f\<close> is not a direct child of the cache path (it is not the path followed by one
    segment without a slash), the round leaves both lists as they are;
  \<^item> when it is, and the status is \<open>added\<close> or \<open>modified\<close>, the first file of that name
    is removed and a rebuilt entry is appended whose size is additions plus deletions;
  \<^item> when it is, and the status is \<open>removed\<close>, the first entry of that name is removed from
    the files and from the folders;
  \<^item> with file names unique in the listing, no entry of that name is left after the
    removal;
  \<^item> the listing \<open>a.txt, b.txt\<close> with cache path \<open>dir\<close> and the one change
    \<open>dir/b.txt removed\<close> gives the files \<open>a.txt\<close>.
\<close>

theorem applyChangesToCache_direct_children:
  assumes "filename c = Some f"
  shows
    "((\<forall>seg. f = child_path dir seg \<longrightarrow> CHR ''/'' \<in> set seg) \<longrightarrow>
        applyChangesToCache dir now (c # cs) fs ds = applyChangesToCache dir now cs fs ds)
     \<and> (\<forall>seg a d. f = child_path dir seg \<and> CHR ''/'' \<notin> set seg
            \<and> (status c = ''added'' \<or> status c = ''modified'')
            \<and> additions c = Some a \<and> deletions c = Some d \<longrightarrow>
          (\<exists>new. applyChangesToCache dir now (c # cs) fs ds
                   = applyChangesToCache dir now cs
                       (remove_first (\<lambda>e. entry_name e = seg) fs @ [new]) ds
                \<and> entry_name new = seg \<and> entry_size new = Some (a + d)
                \<and> entry_path new = f \<and> entry_sha new = sha c))
     \<and> (\<forall>seg. f = child_path dir seg \<and> CHR ''/'' \<notin> set seg \<and> status c = ''removed'' \<longrightarrow>
          applyChangesToCache dir now (c # cs) fs ds
            = applyChangesToCache dir now cs
                (remove_first (\<lambda>e. entry_name e = seg) fs)
                (remove_first (\<lambda>e. entry_name e = seg) ds))
     \<and> (\<forall>seg. distinct (map entry_name fs) \<longrightarrow>
          seg \<notin> entry_name ` set (remove_first (\<lambda>e. entry_name e = seg) fs))
     \<and> (\<forall>(fa::entry) (fb::entry).
            c = removed_b \<and> entry_name fa = ''a.txt'' \<and> entry_name fb = ''b.txt'' \<longrightarrow>
          fst (applyChangesToCache ''dir'' now [c] [fa, fb] ds) = [fa])"
proof (intro conjI allI impI)
  assume "\<forall>seg. f = child_path dir seg \<longrightarrow> CHR ''/'' \<in> set seg"
  then show "applyChangesToCache dir now (c # cs) fs ds = applyChangesToCache dir now cs fs ds"
    using applyChange_not_child [OF assms] by simp
next
  fix seg a d
  assume h: "f = child_path dir seg \<and> CHR ''/'' \<notin> set seg
             \<and> (status c = ''added'' \<or> status c = ''modified'')
             \<and> additions c = Some a \<and> deletions c = Some d"
  then obtain new where new:
    "updateFileInCache fs c (child_path dir seg) now = remove_first (\<lambda>e. entry_name e = seg) fs @ [new]"
    "entry_name new = seg" "entry_size new = Some (a + d)"
    "entry_path new = child_path dir seg" "entry_sha new = sha c"
    using updateFileInCache_child [of seg c a d fs dir now] by blast
  have "applyChange dir now c fs ds = Returned (updateFileInCache fs c (child_path dir seg) now, ds)"
    using applyChange_child [of c dir seg now fs ds] assms h by auto
  then have "applyChangesToCache dir now (c # cs) fs ds
               = applyChangesToCache dir now cs (remove_first (\<lambda>e. entry_name e = seg) fs @ [new]) ds"
    using new(1) by simp
  then show "\<exists>new. applyChangesToCache dir now (c # cs) fs ds
                   = applyChangesToCache dir now cs
                       (remove_first (\<lambda>e. entry_name e = seg) fs @ [new]) ds
                \<and> entry_name new = seg \<and> entry_size new = Some (a + d)
                \<and> entry_path new = f \<and> entry_sha new = sha c"
    using new h by blast
next
  fix seg
  assume h: "f = child_path dir seg \<and> CHR ''/'' \<notin> set seg \<and> status c = ''removed''"
  have "applyChange dir now c fs ds = Returned (removeFileFromCache fs ds seg)"
    using applyChange_child [of c dir seg now fs ds] assms h by auto
  then show "applyChangesToCache dir now (c # cs) fs ds
            = applyChangesToCache dir now cs
                (remove_first (\<lambda>e. entry_name e = seg) fs)
                (remove_first (\<lambda>e. entry_name e = seg) ds)"
    using h by (simp add: removeFileFromCache_child)
next
  fix seg
  assume "distinct (map entry_name fs)"
  then show "seg \<notin> entry_name ` set (remove_first (\<lambda>e. entry_name e = seg) fs)"
    by (rule remove_first_distinct)
next
  fix fa fb :: entry
  assume h: "c = removed_b \<and> entry_name fa = ''a.txt'' \<and> entry_name fb = ''b.txt''"
  have "applyChange ''dir'' now removed_b [fa, fb] ds
          = Returned (removeFileFromCache [fa, fb] ds ''b.txt'')"
    using applyChange_child [of removed_b "''dir''" "''b.txt''" now "[fa, fb]" ds]
    by (simp add: removed_b_def child_path_def)
  then show "fst (applyChangesToCache ''dir'' now [c] [fa, fb] ds) = [fa]"
    using h by (simp add: removeFileFromCache_child)
qed

theorem applyChangesToCache_direct_children_witness:
  "fst (applyChangesToCache ''dir'' 0 [removed_b] [example_file ''a.txt'', example_file ''b.txt''] [])
     = [example_file ''a.txt'']
   \<and> applyChangesToCache ''dir'' 0 [removed_b] [example_file ''a.txt'', example_file ''b.txt''] []
     = ([example_file ''a.txt''], [])"
  using applyChangesToCache_direct_children
          [of removed_b "''dir/b.txt''" "''dir''" 0 "[]"
              "[example_file ''a.txt'', example_file ''b.txt'']" "[]"]
  by (simp add: removed_b_def example_file_def child_path_def)

section \<open>Properties of the two-tier store\<close>

lemma getCachedData_catch:
  "fst (getCachedData_try st now repo dir) = Threw \<Longrightarrow> fst (getCachedData st now repo dir) = None"
  by (cases "getCachedData_try st now repo dir") (simp add: getCachedData_def)

lemma getCachedData_durable_throw:
  assumes "map_of (memoryCache st) (getCacheKey repo dir) = None"
    and "getItem_throws (localStorage st)
         \<or> map_of (items (localStorage st)) (getCacheKey repo dir) = Some Corrupt"
  shows "getCachedData_try st now repo dir = (Threw, st)"
    and "getCachedData st now repo dir = (None, st)"
  using assms by (auto simp: getCachedData_def getCachedData_try_def Let_def)

lemma setCachedData_memory:
  "map_of (memoryCache (setCachedData st now repo dir tok fs ds)) (getCacheKey repo dir)
     = Some (new_entry now repo dir tok fs ds)"
  by (simp add: setCachedData_def new_entry_def Let_def update_conv')

lemma setCachedData_timers:
  "timers (setCachedData st now repo dir tok fs ds)
     = timers st @ [\<lparr>t_cacheKey = getCacheKey repo dir,
                     t_cacheData = new_entry now repo dir tok fs ds,
                     t_repoName = repo, t_commitSha = tok\<rparr>]"
  by (simp add: setCachedData_def new_entry_def Let_def)

lemma persist_try_memory:
  "memoryCache (snd (persist_try st now t)) = memoryCache st"
  by (simp add: persist_try_def setItem_def Let_def)

lemma persist_try_throw:
  "setItem_throws (localStorage st) (t_cacheKey t) \<Longrightarrow> persist_try st now t = (Threw, st)"
  by (simp add: persist_try_def)

lemma run_timer_memory: "memoryCache (run_timer st now) = memoryCache st"
  by (cases "timers st") (simp_all add: run_timer_def persist_try_memory)

lemma getCachedData_memory_hit:
  assumes "map_of (memoryCache st) (getCacheKey repo dir) = Some e"
    and "version e = CACHE_VERSION" and "now - timestamp e < MAX_CACHE_AGE"
  shows "getCachedData st now repo dir = (Some e, st)"
  using assms by (simp add: getCachedData_def getCachedData_try_def Let_def)

lemma getCachedData_no_valid_memory:
  assumes "\<not> (\<exists>e. map_of (memoryCache st) (getCacheKey repo dir) = Some e
                 \<and> version e = CACHE_VERSION \<and> now - timestamp e < MAX_CACHE_AGE)"
    and "getItem_throws (localStorage st)
         \<or> map_of (items (localStorage st)) (getCacheKey repo dir) = Some Corrupt"
  shows "getCachedData_try st now repo dir
           = (Threw, st\<lparr>memoryCache := AList.delete (getCacheKey repo dir) (memoryCache st)\<rparr>)"
    and "getCachedData st now repo dir
           = (None, st\<lparr>memoryCache := AList.delete (getCacheKey repo dir) (memoryCache st)\<rparr>)"
proof -
  show t: "getCachedData_try st now repo dir
           = (Threw, st\<lparr>memoryCache := AList.delete (getCacheKey repo dir) (memoryCache st)\<rparr>)"
  proof (cases "map_of (memoryCache st) (getCacheKey repo dir)")
    case None
    then have "getCacheKey repo dir \<notin> fst ` set (memoryCache st)"
      by (simp add: map_of_eq_None_iff)
    then have "AList.delete (getCacheKey repo dir) (memoryCache st) = memoryCache st"
      by (rule delete_id)
    then show ?thesis
      using None assms(2) by (auto simp: getCachedData_try_def Let_def)
  next
    case (Some e)
    then have "\<not> (version e = CACHE_VERSION \<and> now - timestamp e < MAX_CACHE_AGE)"
      using assms(1) by simp
    then show ?thesis
      using Some assms(2) by (auto simp: getCachedData_try_def Let_def)
  qed
  then show "getCachedData st now repo dir
           = (None, st\<lparr>memoryCache := AList.delete (getCacheKey repo dir) (memoryCache st)\<rparr>)"
    by (simp add: getCachedData_def)
qed

text \<open>
  Claim C9. Reading: a throw inside \<open>getCachedData\<close> ends in \<open>null\<close>. When the memory
  tier holds no valid entry for the key (none at all, or one of another version, or one
  that has reached the maximum age) and the durable tier throws on the read, or holds text
  that \<open>JSON.parse\<close> rejects, the read gives \<open>null\<close>; the only change to the store is that
  the invalid memory entry, if any, has been dropped, so with nothing in the memory tier
  the store is as it was. A valid memory entry is returned whatever the durable tier
  does. Writing: \<open>setCachedData\<close> puts the new entry into the memory tier at once and
  queues the durable write; a queued write whose \<open>setItem\<close> throws changes nothing; so
  after a store on a full durable tier the callback leaves the memory entry in place and a
  later read within the maximum age returns it.
\<close>

theorem durable_failures_swallowed:
  "(fst (getCachedData_try st now repo dir) = Threw
      \<longrightarrow> fst (getCachedData st now repo dir) = None)
   \<and> (\<not> (\<exists>e. map_of (memoryCache st) (getCacheKey repo dir) = Some e
                \<and> version e = CACHE_VERSION \<and> now - timestamp e < MAX_CACHE_AGE)
       \<and> (getItem_throws (localStorage st)
          \<or> map_of (items (localStorage st)) (getCacheKey repo dir) = Some Corrupt)
      \<longrightarrow> getCachedData_try st now repo dir
            = (Threw, st\<lparr>memoryCache := AList.delete (getCacheKey repo dir) (memoryCache st)\<rparr>)
          \<and> getCachedData st now repo dir
            = (None, st\<lparr>memoryCache := AList.delete (getCacheKey repo dir) (memoryCache st)\<rparr>))
   \<and> (map_of (memoryCache st) (getCacheKey repo dir) = None
       \<and> (getItem_throws (localStorage st)
          \<or> map_of (items (localStorage st)) (getCacheKey repo dir) = Some Corrupt)
      \<longrightarrow> getCachedData_try st now repo dir = (Threw, st)
          \<and> getCachedData st now repo dir = (None, st))
   \<and> (\<forall>e. map_of (memoryCache st) (getCacheKey repo dir) = Some e
            \<and> version e = CACHE_VERSION \<and> now - timestamp e < MAX_CACHE_AGE
          \<longrightarrow> getCachedData st now repo dir = (Some e, st))
   \<and> map_of (memoryCache (setCachedData st now repo dir tok fs ds)) (getCacheKey repo dir)
       = Some (new_entry now repo dir tok fs ds)
   \<and> (\<forall>st' t. setItem_throws (localStorage st') (t_cacheKey t)
      \<longrightarrow> persist_try st' later t = (Threw, st'))
   \<and> (timers st = [] \<and> setItem_throws (localStorage st) (getCacheKey repo dir)
      \<longrightarrow> run_timer (setCachedData st now repo dir tok fs ds) later
              = st\<lparr>memoryCache := memoryCache (setCachedData st now repo dir tok fs ds)\<rparr>
          \<and> (later - now < MAX_CACHE_AGE
             \<longrightarrow> fst (getCachedData (run_timer (setCachedData st now repo dir tok fs ds) later)
                        later repo dir)
                 = Some (new_entry now repo dir tok fs ds)))"
proof (intro conjI impI allI)
  assume "fst (getCachedData_try st now repo dir) = Threw"
  then show "fst (getCachedData st now repo dir) = None" by (rule getCachedData_catch)
next
  assume h: "\<not> (\<exists>e. map_of (memoryCache st) (getCacheKey repo dir) = Some e
                \<and> version e = CACHE_VERSION \<and> now - timestamp e < MAX_CACHE_AGE)
       \<and> (getItem_throws (localStorage st)
          \<or> map_of (items (localStorage st)) (getCacheKey repo dir) = Some Corrupt)"
  then show "getCachedData_try st now repo dir
            = (Threw, st\<lparr>memoryCache := AList.delete (getCacheKey repo dir) (memoryCache st)\<rparr>)"
    using getCachedData_no_valid_memory(1) by blast
  from h show "getCachedData st now repo dir
            = (None, st\<lparr>memoryCache := AList.delete (getCacheKey repo dir) (memoryCache st)\<rparr>)"
    using getCachedData_no_valid_memory(2) by blast
next
  assume h: "map_of (memoryCache st) (getCacheKey repo dir) = None
       \<and> (getItem_throws (localStorage st)
          \<or> map_of (items (localStorage st)) (getCacheKey repo dir) = Some Corrupt)"
  then show "getCachedData_try st now repo dir = (Threw, st)"
    using getCachedData_durable_throw(1) by blast
  from h show "getCachedData st now repo dir = (None, st)"
    using getCachedData_durable_throw(2) by blast
next
  fix e :: cache_obj
  assume "map_of (memoryCache st) (getCacheKey repo dir) = Some e
            \<and> version e = CACHE_VERSION \<and> now - timestamp e < MAX_CACHE_AGE"
  then show "getCachedData st now repo dir = (Some e, st)"
    using getCachedData_memory_hit by blast
next
  show "map_of (memoryCache (setCachedData st now repo dir tok fs ds)) (getCacheKey repo dir)
       = Some (new_entry now repo dir tok fs ds)" by (rule setCachedData_memory)
next
  fix st' :: cache_state and t :: deferred
  assume "setItem_throws (localStorage st') (t_cacheKey t)"
  then show "persist_try st' later t = (Threw, st')" by (rule persist_try_throw)
next
  assume h: "timers st = [] \<and> setItem_throws (localStorage st) (getCacheKey repo dir)"
  let ?st1 = "setCachedData st now repo dir tok fs ds"
  have ls: "localStorage ?st1 = localStorage st"
    by (simp add: setCachedData_def Let_def)
  show run: "run_timer ?st1 later = st\<lparr>memoryCache := memoryCache ?st1\<rparr>"
    using h ls setCachedData_timers [of st now repo dir tok fs ds]
    by (simp add: run_timer_def persist_try_throw setCachedData_def Let_def)
  show "fst (getCachedData (run_timer ?st1 later) later repo dir)
          = Some (new_entry now repo dir tok fs ds)"
    if "later - now < MAX_CACHE_AGE"
  proof -
    have "map_of (memoryCache (run_timer ?st1 later)) (getCacheKey repo dir)
            = Some (new_entry now repo dir tok fs ds)"
      by (simp add: run_timer_memory setCachedData_memory)
    then show ?thesis
      using that getCachedData_memory_hit [of "run_timer ?st1 later" repo dir
              "new_entry now repo dir tok fs ds" later]
      by (simp add: new_entry_def)
  qed
qed

theorem durable_failures_swallowed_witness:
  "getCachedData expired_full_store MAX_CACHE_AGE ''demo'' [] = (None, full_store)
   \<and> getCachedData full_store 5 ''demo'' [] = (None, full_store)
   \<and> getCachedData (expired_full_store\<lparr>localStorage := localStorage corrupt_store\<rparr>) 5 ''demo'' []
       = (Some (new_entry 0 ''demo'' [] (Some ''abc123'') [example_file ''x.md''] []),
          expired_full_store\<lparr>localStorage := localStorage corrupt_store\<rparr>)
   \<and> getCachedData corrupt_store 5 ''demo'' [] = (None, corrupt_store)
   \<and> fst (getCachedData (run_timer (setCachedData full_store 5 ''demo'' [] (Some ''abc123'')
                                       [example_file ''x.md''] []) 7) 7 ''demo'' [])
       = Some (new_entry 5 ''demo'' [] (Some ''abc123'') [example_file ''x.md''] [])"
proof -
  let ?e = "new_entry 0 ''demo'' [] (Some ''abc123'') [example_file ''x.md''] []"
  let ?live = "expired_full_store\<lparr>localStorage := localStorage corrupt_store\<rparr>"
  have m: "map_of (memoryCache expired_full_store) (getCacheKey ''demo'' []) = Some ?e"
    by (simp add: expired_full_store_def)
  have h0: "\<not> (\<exists>e. map_of (memoryCache expired_full_store) (getCacheKey ''demo'' []) = Some e
                  \<and> version e = CACHE_VERSION \<and> MAX_CACHE_AGE - timestamp e < MAX_CACHE_AGE)
            \<and> (getItem_throws (localStorage expired_full_store)
               \<or> map_of (items (localStorage expired_full_store)) (getCacheKey ''demo'' [])
                  = Some Corrupt)"
    unfolding m by (simp add: new_entry_def expired_full_store_def full_store_def)
  have d: "expired_full_store
             \<lparr>memoryCache := AList.delete (getCacheKey ''demo'' []) (memoryCache expired_full_store)\<rparr>
           = full_store"
    by (simp add: expired_full_store_def full_store_def)
  have a: "getCachedData expired_full_store MAX_CACHE_AGE ''demo'' [] = (None, full_store)"
    using h0 d
      durable_failures_swallowed [of expired_full_store MAX_CACHE_AGE "''demo''" "[]"]
    by metis
  have h1: "map_of (memoryCache full_store) (getCacheKey ''demo'' []) = None
            \<and> (getItem_throws (localStorage full_store)
               \<or> map_of (items (localStorage full_store)) (getCacheKey ''demo'' []) = Some Corrupt)"
    by (simp add: full_store_def)
  have h2: "timers full_store = []
            \<and> setItem_throws (localStorage full_store) (getCacheKey ''demo'' [])"
    by (simp add: full_store_def)
  have h3: "(7::int) - 5 < MAX_CACHE_AGE"
    by (simp add: MAX_CACHE_AGE_def)
  have b: "getCachedData full_store 5 ''demo'' [] = (None, full_store)
   \<and> fst (getCachedData (run_timer (setCachedData full_store 5 ''demo'' [] (Some ''abc123'')
                                       [example_file ''x.md''] []) 7) 7 ''demo'' [])
       = Some (new_entry 5 ''demo'' [] (Some ''abc123'') [example_file ''x.md''] [])"
    using h1 h2 h3
      durable_failures_swallowed [of full_store 5 "''demo''" "[]" "Some ''abc123''"
        "[example_file ''x.md'']" "[]" 7]
    by blast
  have h4: "map_of (memoryCache ?live) (getCacheKey ''demo'' []) = Some ?e
            \<and> version ?e = CACHE_VERSION \<and> 5 - timestamp ?e < MAX_CACHE_AGE"
    by (simp add: expired_full_store_def new_entry_def MAX_CACHE_AGE_def)
  have c: "getCachedData ?live 5 ''demo'' [] = (Some ?e, ?live)"
    using h4 durable_failures_swallowed [of ?live 5 "''demo''" "[]"] by blast
  have h5: "map_of (memoryCache corrupt_store) (getCacheKey ''demo'' []) = None
            \<and> (getItem_throws (localStorage corrupt_store)
               \<or> map_of (items (localStorage corrupt_store)) (getCacheKey ''demo'' [])
                  = Some Corrupt)"
    by (simp add: corrupt_store_def)
  have e: "getCachedData corrupt_store 5 ''demo'' [] = (None, corrupt_store)"
    using h5 durable_failures_swallowed [of corrupt_store 5 "''demo''" "[]"] by blast
  show ?thesis using a b c e by simp
qed

text \<open>
  Claim C3 at two inputs. A commit record of format version \<open>0.9\<close> in the durable tier is
  returned by \<open>getCachedCommitSha\<close>, promoted to the memory tier and kept in the durable
  tier: that branch tests the age only. A listing exactly 24 hours old in the durable tier
  is returned by \<open>getCachedData\<close> and promoted: that branch tests
  \<open>now - timestamp > MAX_CACHE_AGE\<close>, the memory branch \<open>now - timestamp < MAX_CACHE_AGE\<close>.
\<close>

theorem durable_tier_validity_evaluated:
  "getCachedCommitSha old_version_store 1000 ''demo''
     = (Some ''abc123'', old_version_store\<lparr>commitCache := [(''demo'', old_commit_record)]\<rparr>)
   \<and> version old_commit_record \<noteq> CACHE_VERSION
   \<and> getCachedData day_old_store MAX_CACHE_AGE ''demo'' []
     = (Some (new_entry 0 ''demo'' [] (Some ''abc123'') [example_file ''x.md''] []),
        day_old_store\<lparr>memoryCache :=
          [(getCacheKey ''demo'' [],
            new_entry 0 ''demo'' [] (Some ''abc123'') [example_file ''x.md''] [])]\<rparr>)"
  by (simp add: getCachedCommitSha_def getCachedCommitSha_try_def old_version_store_def
      old_commit_record_def getCachedData_def getCachedData_try_def day_old_store_def
      new_entry_def CACHE_VERSION_def MAX_CACHE_AGE_def Let_def)

section \<open>Properties of the version resolution\<close>

lemma branch_step_Found:
  "branch_step (branches r repo b) = Found c \<longleftrightarrow> spec_usable_branch r repo b = Some c"
  by (auto simp: branch_step_def spec_usable_branch_def
      split: response.splits option.splits if_splits)

lemma branch_step_Nothing:
  "branch_step (branches r repo b) = Nothing \<Longrightarrow> spec_usable_branch r repo b = None"
  by (auto simp: branch_step_def spec_usable_branch_def
      split: response.splits option.splits if_splits)

lemma commits_step_Found:
  "commits_step (commits r repo b) = Found c \<longleftrightarrow> spec_usable_history r repo b = Some c"
  by (auto simp: commits_step_def spec_usable_history_def
      split: response.splits option.splits if_splits list.splits)

lemma commits_step_Nothing:
  "commits_step (commits r repo b) = Nothing \<Longrightarrow> spec_usable_history r repo b = None"
  by (auto simp: commits_step_def spec_usable_history_def
      split: response.splits option.splits if_splits list.splits)

text \<open>The five ways the two requests for one branch can end.\<close>

lemma resolve_branch_cases:
  obtains (thrown1) "branch_step (branches r repo b) = Fails"
      "resolve_branch r repo b = (Fails, [GetBranch repo b])"
  | (found1) c where "spec_usable_branch r repo b = Some c"
      "branch_step (branches r repo b) = Found c"
      "resolve_branch r repo b = (Found c, [GetBranch repo b])"
  | (thrown2) "spec_usable_branch r repo b = None" "branch_step (branches r repo b) = Nothing"
      "commits_step (commits r repo b) = Fails"
      "resolve_branch r repo b = (Fails, [GetBranch repo b, GetCommits repo b])"
  | (found2) c where "spec_usable_branch r repo b = None"
      "branch_step (branches r repo b) = Nothing"
      "spec_usable_history r repo b = Some c" "commits_step (commits r repo b) = Found c"
      "resolve_branch r repo b = (Found c, [GetBranch repo b, GetCommits repo b])"
  | (nothing) "spec_usable_branch r repo b = None" "branch_step (branches r repo b) = Nothing"
      "spec_usable_history r repo b = None" "commits_step (commits r repo b) = Nothing"
      "resolve_branch r repo b = (Nothing, [GetBranch repo b, GetCommits repo b])"
proof (cases "branch_step (branches r repo b)")
  case Fails
  show ?thesis
    by (rule thrown1) (use Fails in \<open>simp_all add: resolve_branch_def\<close>)
next
  case Nothing
  note n1 = this
  show ?thesis
  proof (cases "commits_step (commits r repo b)")
    case Fails
    show ?thesis
      by (rule thrown2)
        (use Fails n1 branch_step_Nothing [OF n1] in \<open>simp_all add: resolve_branch_def\<close>)
  next
    case Nothing
    show ?thesis
      by (rule nothing)
        (use Nothing n1 branch_step_Nothing [OF n1] commits_step_Nothing [OF Nothing]
          in \<open>simp_all add: resolve_branch_def\<close>)
  next
    case (Found c)
    show ?thesis
      by (rule found2 [of c])
        (use Found n1 branch_step_Nothing [OF n1] commits_step_Found [of r repo b c]
          in \<open>simp_all add: resolve_branch_def\<close>)
  qed
next
  case (Found c)
  show ?thesis
    by (rule found1 [of c])
      (use Found branch_step_Found [of r repo b c] in \<open>simp_all add: resolve_branch_def\<close>)
qed

lemma probe_contents_cases:
  obtains (thrown) "contents r repo [] = NetworkError"
      "probe_contents r now repo = (None, [GetContents repo []])"
      "spec_probe r now repo = None"
  | (answers) "\<not> request_throws r (GetContents repo [])"
      "probe_contents r now repo = (spec_probe r now repo, [GetContents repo []])"
  by (cases "contents r repo []")
    (auto simp: probe_contents_def spec_probe_def request_throws_def)

lemmas cascade_defs =
  getLatestCommitSha_def resolution_order_def spec_resolveVersion_def spec_branch_token_def
  spec_repo_info_def request_throws_def request_finds_def butlast_append

text \<open>
  Claim C2, as the code has it. For a repository name that is not empty:
  \<^item> the requests made are an initial part of the fixed order (branch, history, repository,
    branch and history of the reported default branch, root listing);
  \<^item> every request but the last one made neither threw nor found a commit: a later step
    is attempted only when the earlier ones gave nothing usable;
  \<^item> when no request made throws, the result is the one of the specification's steps 1
    to 6, with the two placeholders of steps 4 and 5 and \<open>null\<close> only when every step
    gave nothing;
  \<^item> when a request made throws, the result is \<open>null\<close> at once, whatever the later
    steps would have given.
\<close>

theorem getLatestCommitSha_cascade:
  assumes "repo \<noteq> []"
  shows "prefix (snd (getLatestCommitSha r now (Some repo) b)) (resolution_order r repo b)
     \<and> (\<forall>req \<in> set (butlast (snd (getLatestCommitSha r now (Some repo) b))).
           \<not> request_throws r req \<and> \<not> request_finds r req)
     \<and> ((\<forall>req \<in> set (snd (getLatestCommitSha r now (Some repo) b)). \<not> request_throws r req)
          \<longrightarrow> fst (getLatestCommitSha r now (Some repo) b) = spec_resolveVersion r now repo b)
     \<and> ((\<exists>req \<in> set (snd (getLatestCommitSha r now (Some repo) b)). request_throws r req)
          \<longrightarrow> fst (getLatestCommitSha r now (Some repo) b) = None)"
  using assms
  apply (cases rule: resolve_branch_cases [of r repo b]; simp add: cascade_defs)
  apply (cases "repo_info r repo"; simp add: cascade_defs)
  subgoal for st body
    apply (cases body; simp add: cascade_defs)
    subgoal
      by (cases rule: probe_contents_cases [of r repo now]) (auto simp: cascade_defs)
    subgoal for d
      apply (cases "ok st"; simp add: cascade_defs)
       apply (cases "truthy (default_branch d)"; simp add: cascade_defs)
        apply (cases rule: resolve_branch_cases [of r repo "the (default_branch d)"];
               simp add: cascade_defs)
            apply (auto simp: truthy_def split: option.splits)[4]
        apply (cases rule: probe_contents_cases [of r repo now];
               auto simp: cascade_defs truthy_def split: option.splits)
       apply (cases rule: probe_contents_cases [of r repo now]; auto simp: cascade_defs)
      apply (cases rule: probe_contents_cases [of r repo now]; auto simp: cascade_defs)
      done
    done
  done

theorem getLatestCommitSha_cascade_witness:
  "getLatestCommitSha demo_host 7 (Some ''demo'') ''main'' = (Some ''abc123'', [GetBranch ''demo'' ''main''])
   \<and> spec_resolveVersion demo_host 7 ''demo'' ''main'' = Some ''abc123''
   \<and> prefix [GetBranch ''demo'' ''main''] (resolution_order demo_host ''demo'' ''main'')"
proof -
  have run: "getLatestCommitSha demo_host 7 (Some ''demo'') ''main''
              = (Some ''abc123'', [GetBranch ''demo'' ''main''])"
    by (simp add: getLatestCommitSha_def resolve_branch_def branch_step_def demo_host_def ok_def)
  have quiet: "\<forall>req \<in> set (snd (getLatestCommitSha demo_host 7 (Some ''demo'') ''main'')).
                 \<not> request_throws demo_host req"
    unfolding run by (simp add: request_throws_def branch_step_def demo_host_def ok_def)
  have "''demo'' \<noteq> []" by simp
  from getLatestCommitSha_cascade [OF this, of demo_host 7 "''main''"] quiet run
  show ?thesis by simp
qed

text \<open>
  Claim C2 as stated fails where a request throws: the branch request of \<open>flaky_host\<close> is
  rejected, and the resolution returns \<open>null\<close> after this one request, although the
  history endpoint would have given \<open>abc123\<close> at step 2. And the two requests for the
  default branch are made also when it is the requested branch: \<open>empty_host\<close> reports
  \<open>main\<close>, and \<open>main\<close> is asked twice.
\<close>

theorem getLatestCommitSha_throw_counterexample:
  "getLatestCommitSha flaky_host 7 (Some ''demo'') ''main'' = (None, [GetBranch ''demo'' ''main''])
   \<and> spec_resolveVersion flaky_host 7 ''demo'' ''main'' = Some ''abc123''
   \<and> getLatestCommitSha empty_host 5 (Some ''demo'') ''main''
       = (Some ''empty-repo-5'',
          [GetBranch ''demo'' ''main'', GetCommits ''demo'' ''main'', GetRepo ''demo'',
           GetBranch ''demo'' ''main'', GetCommits ''demo'' ''main''])"
  by code_simp

section \<open>Properties of the placeholder tokens and of \<open>loadContents\<close>\<close>







lemma resolve_branch_no_listing:
  "resolve_branch r repo b = (s, tr) \<Longrightarrow> GetContents repo p \<notin> set tr"
  by (auto simp: resolve_branch_def split: step.splits)

lemma reports_empty_no_probe:
  assumes "repo \<noteq> []" and "reports_empty r repo b"
  shows "GetContents repo [] \<notin> set (snd (getLatestCommitSha r now (Some repo) b))"
  using assms
  by (auto simp: reports_empty_def getLatestCommitSha_def
      dest: resolve_branch_no_listing
      split: response.splits option.splits prod.splits step.splits if_splits)





lemma stored_at_eq:
  "stored_at t tok =
     \<lparr>memoryCache = [(''gitea_repo_cache_demo_root'',
                       new_entry t ''demo'' [] (Some tok) [example_file ''x.md''] [example_folder ''docs''])],
      commitCache = [(''demo'',
                      \<lparr>version = CACHE_VERSION, timestamp = t, lastFetched = None,
                       commitSha = Some tok, path = None, files = None, folders = None,
                       repoName = None\<rparr>)],
      localStorage =
        \<lparr>items = [(''gitea_repo_cache_demo_root'',
                    Json (new_entry t ''demo'' [] (Some tok) [example_file ''x.md''] [example_folder ''docs''])),
                   (''gitea_repo_cache_commit_demo'',
                    Json \<lparr>version = CACHE_VERSION, timestamp = t, lastFetched = None,
                          commitSha = Some tok, path = None, files = None, folders = None,
                          repoName = None\<rparr>)],
         getItem_throws = False, setItem_throws = (\<lambda>k. False)\<rparr>,
      timers = []\<rparr>"
  by (simp add: stored_at_def run_timer_def setCachedData_def persist_try_def setItem_def
      empty_store_def new_entry_def getCacheKey_def getCommitCacheKey_def CACHE_PREFIX_def
      strip_slashes_def Let_def)




text \<open>
  Claim C1 at a failing input: three ordinary loads. At time 5 the root of \<open>demo\<close> is
  loaded from the host at \<open>abc123\<close> and stored, and the deferred write runs. The host
  moves to \<open>def456\<close>, where the root also holds \<open>y.md\<close>. At time 6 the folder \<open>docs\<close> is
  loaded: the stored token \<open>abc123\<close> differs from \<open>def456\<close>, so the listing of \<open>docs\<close> is
  fetched and stored under \<open>def456\<close>, which becomes the stored token of the repository.
  At time 7 the root is loaded again: the resolved token \<open>def456\<close> equals the stored
  token, so the call ends as a cache hit with no listing request and shows the lists of
  the root entry, which still carries the token \<open>abc123\<close> and lacks \<open>y.md\<close>. A direct
  load of the root at that moment shows \<open>x.md\<close> and \<open>y.md\<close>.
\<close>

theorem loadContents_stale_entry_evaluated:
  "outcome_of root_load = Fresh True
   \<and> requests_of root_load = [GetBranch ''demo'' ''main'', GetContents ''demo'' []]
   \<and> fst (getCachedCommitSha (run_timer (store_of root_load) 5) 6 ''demo'') = Some ''abc123''
   \<and> fst (getLatestCommitSha moved_host 6 (Some ''demo'') ''main'') = Some ''def456''
   \<and> outcome_of docs_load = Fresh True
   \<and> requests_of docs_load = [GetBranch ''demo'' ''main'', GetContents ''demo'' ''docs'']
   \<and> fst (getCachedCommitSha (run_timer (store_of docs_load) 6) 7 ''demo'') = Some ''def456''
   \<and> map_option commitSha (fst (getCachedData (run_timer (store_of docs_load) 6) 7 ''demo'' []))
       = Some (Some ''abc123'')
   \<and> fst (getLatestCommitSha moved_host 7 (Some ''demo'') ''main'') = Some ''def456''
   \<and> outcome_of root_reload = CacheHit
   \<and> requests_of root_reload = [GetBranch ''demo'' ''main'']
   \<and> map entry_name (view_files (view_of root_reload)) = [''x.md'']
   \<and> view_files (view_of root_reload) = view_files (view_of root_load)
   \<and> view_folders (view_of root_reload) = view_folders (view_of root_load)
   \<and> map entry_name
         (view_files (fst (snd (loadContentsDirectly moved_host (run_timer (store_of docs_load) 6)
                                  ((view_of docs_load)\<lparr>currentFolder := None\<rparr>) 7 ''demo'' []))))
       = [''x.md'', ''y.md'']"
  by code_simp

section \<open>Properties of the ranking\<close>

lemma set_insert_sorted: "set (insert_sorted cmp x xs) = insert x (set xs)"
  by (induction xs) auto

lemma length_insert_sorted: "length (insert_sorted cmp x xs) = Suc (length xs)"
  by (induction xs) auto

lemma set_js_sort: "set (js_sort cmp xs) = set xs"
  by (induction xs) (simp_all add: js_sort_def set_insert_sorted)

lemma length_js_sort: "length (js_sort cmp xs) = length xs"
  by (induction xs) (simp_all add: js_sort_def length_insert_sorted)

lemma sorted_insert_sorted:
  assumes total: "\<And>a b. cmp a b \<le> 0 \<or> cmp b a \<le> 0"
    and trans: "\<And>a b c. cmp a b \<le> 0 \<Longrightarrow> cmp b c \<le> 0 \<Longrightarrow> cmp a c \<le> 0"
    and "sorted_wrt (\<lambda>a b. cmp a b \<le> 0) xs"
  shows "sorted_wrt (\<lambda>a b. cmp a b \<le> 0) (insert_sorted cmp x xs)"
  using assms(3)
proof (induction xs)
  case Nil
  then show ?case by simp
next
  case (Cons y ys)
  show ?case
  proof (cases "cmp x y \<le> 0")
    case True
    then have "\<forall>z \<in> set ys. cmp x z \<le> 0"
      using Cons.prems trans by auto
    then show ?thesis using True Cons.prems by simp
  next
    case False
    then have "cmp y x \<le> 0" using total [of x y] by simp
    then show ?thesis using False Cons by (auto simp: set_insert_sorted)
  qed
qed

lemma sorted_js_sort:
  assumes "\<And>a b. cmp a b \<le> 0 \<or> cmp b a \<le> 0"
    and "\<And>a b c. cmp a b \<le> 0 \<Longrightarrow> cmp b c \<le> 0 \<Longrightarrow> cmp a c \<le> 0"
  shows "sorted_wrt (\<lambda>a b. cmp a b \<le> 0) (js_sort cmp xs)"
proof (induction xs)
  case Nil
  then show ?case by (simp add: js_sort_def)
next
  case (Cons x xs)
  have "js_sort cmp (x # xs) = insert_sorted cmp x (js_sort cmp xs)"
    by (simp add: js_sort_def)
  then show ?case using sorted_insert_sorted [OF assms Cons, where x = x] by simp
qed

lemma compare_hits_spec:
  "compare_hits lc a b \<le> 0 \<longleftrightarrow> spec_ranks_before lc a b"
  by (auto simp: compare_hits_def spec_ranks_before_def segment_count_def Let_def)

lemma compare_hits_total:
  "consistent lc \<Longrightarrow> compare_hits lc a b \<le> 0 \<or> compare_hits lc b a \<le> 0"
  unfolding compare_hits_spec spec_ranks_before_def consistent_def
  by (metis linorder_less_linear)

lemma compare_hits_trans:
  assumes "consistent lc" and "compare_hits lc a b \<le> 0" and "compare_hits lc b c \<le> 0"
  shows "compare_hits lc a c \<le> 0"
proof -
  have tr: "lc (fullPath a) (fullPath b) \<le> 0 \<Longrightarrow> lc (fullPath b) (fullPath c) \<le> 0
              \<Longrightarrow> lc (fullPath a) (fullPath c) \<le> 0"
    using assms(1) unfolding consistent_def by blast
  have ab: "spec_ranks_before lc a b" using assms(2) by (simp add: compare_hits_spec)
  have bc: "spec_ranks_before lc b c" using assms(3) by (simp add: compare_hits_spec)
  have "spec_ranks_before lc a c"
    using ab bc tr unfolding spec_ranks_before_def by auto
  then show ?thesis by (simp add: compare_hits_spec)
qed


lemma consistent_code_order: "consistent code_order"
  unfolding consistent_def code_order_def by auto


lemma slice0_take: "slice0 xs n = take (if n < 0 then nat (int (length xs) + n) else nat n) xs"
  by (simp add: slice0_def)

lemma sorted_slice0:
  "sorted_wrt P xs \<Longrightarrow> sorted_wrt P (slice0 xs n)"
  by (simp add: slice0_take sorted_wrt_take)

lemma slice0_split:
  assumes "sorted_wrt P xs"
  shows "\<exists>dropped. xs = slice0 xs n @ dropped \<and> (\<forall>x \<in> set (slice0 xs n). \<forall>y \<in> set dropped. P x y)"
proof -
  define k where "k = (if n < 0 then nat (int (length xs) + n) else nat n)"
  have s: "slice0 xs n = take k xs" by (simp add: slice0_take k_def)
  have "sorted_wrt P (take k xs @ drop k xs)" using assms by simp
  then have "\<forall>x \<in> set (take k xs). \<forall>y \<in> set (drop k xs). P x y"
    unfolding sorted_wrt_append by blast
  then show ?thesis using s by (intro exI [of _ "drop k xs"]) simp
qed

lemma ranked_js_sort:
  assumes "consistent lc"
  shows "sorted_wrt (ranks_before lc) (js_sort (compare_hits lc) xs)"
  unfolding ranks_before_def
proof (rule sorted_js_sort)
  show "compare_hits lc a b \<le> 0 \<or> compare_hits lc b a \<le> 0" for a b
    using assms by (rule compare_hits_total)
  show "compare_hits lc a b \<le> 0 \<Longrightarrow> compare_hits lc b c \<le> 0 \<Longrightarrow> compare_hits lc a c \<le> 0"
    for a b c
    using assms by (rule compare_hits_trans)
qed

lemma listing_hits_maxResults:
  "listing_hits lib (opts\<lparr>maxResults := m\<rparr>) searchTerm p mtype es = listing_hits lib opts searchTerm p mtype es"
  by (simp add: listing_hits_def name_matches_def opt_caseSensitive_def)

lemma search_paths_maxResults:
  "search_paths lib st now repo searchTerm (opts\<lparr>maxResults := m\<rparr>) ps acc
     = search_paths lib st now repo searchTerm opts ps acc"
proof (induction ps arbitrary: st acc)
  case Nil
  then show ?case by simp
next
  case (Cons p ps)
  then show ?case
    by (simp add: listing_hits_maxResults opt_includeFiles_def opt_includeFolders_def
        split: prod.splits option.splits)
qed

lemma searchCachedData_eq:
  "fst (searchCachedData lib lc st now repo searchTerm opts)
     = slice0 (js_sort (compare_hits lc) (all_cached_hits lib st now repo searchTerm opts))
         (case maxResults opts of None \<Rightarrow> 100 | Some m \<Rightarrow> m)"
  by (simp add: searchCachedData_def all_cached_hits_def Let_def split: prod.splits)

lemma searchCachedDataEnhanced_eq:
  "\<exists>collected. fst (searchCachedDataEnhanced lib lc r st now repo searchTerm opts)
     = slice0 (js_sort (compare_hits lc) collected)
         (case maxResults opts of None \<Rightarrow> 200 | Some m \<Rightarrow> m)"
  by (auto simp: searchCachedDataEnhanced_def Let_def split: prod.splits)

text \<open>
  Claim C7, as the code has it. For a collation that is consistent, and whatever
  \<open>toLowerCase\<close> and \<open>trim\<close> are:
  \<^item> the comparator ranks by descending score, then by ascending number of segments of
    the full path, then by the collation of the full paths;
  \<^item> the hits of the synchronous and of the enhanced form come back in that order;
  \<^item> the synchronous form sorts all the hits of the cached listings and then cuts the
    sorted list to \<open>maxResults\<close> (100 when absent): the hits it sorts do not depend on
    \<open>maxResults\<close>, the sort loses none, and every hit cut off ranks no better than every
    hit returned;
  \<^item> the enhanced form sorts the hits it has collected and cuts them to \<open>maxResults\<close>
    (200 when absent).
\<close>

theorem search_results_ranked:
  assumes "consistent lc"
  shows "(\<forall>a b. ranks_before lc a b \<longleftrightarrow> spec_ranks_before lc a b)
     \<and> sorted_wrt (ranks_before lc) (fst (searchCachedData lib lc st now repo searchTerm opts))
     \<and> sorted_wrt (ranks_before lc)
          (fst (searchCachedDataEnhanced lib lc r st now repo searchTerm opts))
     \<and> fst (searchCachedData lib lc st now repo searchTerm opts)
         = slice0 (js_sort (compare_hits lc) (all_cached_hits lib st now repo searchTerm opts))
             (case maxResults opts of None \<Rightarrow> 100 | Some m \<Rightarrow> m)
     \<and> (\<forall>m. all_cached_hits lib st now repo searchTerm (opts\<lparr>maxResults := m\<rparr>)
               = all_cached_hits lib st now repo searchTerm opts)
     \<and> set (js_sort (compare_hits lc) (all_cached_hits lib st now repo searchTerm opts))
         = set (all_cached_hits lib st now repo searchTerm opts)
     \<and> (\<exists>dropped.
           js_sort (compare_hits lc) (all_cached_hits lib st now repo searchTerm opts)
             = fst (searchCachedData lib lc st now repo searchTerm opts) @ dropped
           \<and> (\<forall>x \<in> set (fst (searchCachedData lib lc st now repo searchTerm opts)).
                \<forall>y \<in> set dropped. ranks_before lc x y))
     \<and> (\<exists>collected.
           fst (searchCachedDataEnhanced lib lc r st now repo searchTerm opts)
             = slice0 (js_sort (compare_hits lc) collected)
                 (case maxResults opts of None \<Rightarrow> 200 | Some m \<Rightarrow> m))"
proof (intro conjI allI)
  show "ranks_before lc a b \<longleftrightarrow> spec_ranks_before lc a b" for a b
    by (simp add: ranks_before_def compare_hits_spec)
  show "sorted_wrt (ranks_before lc) (fst (searchCachedData lib lc st now repo searchTerm opts))"
    unfolding searchCachedData_eq using assms by (intro sorted_slice0 ranked_js_sort)
  show "sorted_wrt (ranks_before lc)
          (fst (searchCachedDataEnhanced lib lc r st now repo searchTerm opts))"
  proof -
    obtain collected where
      "fst (searchCachedDataEnhanced lib lc r st now repo searchTerm opts)
         = slice0 (js_sort (compare_hits lc) collected)
             (case maxResults opts of None \<Rightarrow> 200 | Some m \<Rightarrow> m)"
      using searchCachedDataEnhanced_eq by blast
    then show ?thesis using assms by (simp add: sorted_slice0 ranked_js_sort)
  qed
  show "fst (searchCachedData lib lc st now repo searchTerm opts)
         = slice0 (js_sort (compare_hits lc) (all_cached_hits lib st now repo searchTerm opts))
             (case maxResults opts of None \<Rightarrow> 100 | Some m \<Rightarrow> m)"
    by (rule searchCachedData_eq)
  show "all_cached_hits lib st now repo searchTerm (opts\<lparr>maxResults := m\<rparr>)
               = all_cached_hits lib st now repo searchTerm opts" for m
    by (simp add: all_cached_hits_def search_paths_maxResults)
  show "set (js_sort (compare_hits lc) (all_cached_hits lib st now repo searchTerm opts))
         = set (all_cached_hits lib st now repo searchTerm opts)"
    by (rule set_js_sort)
  show "\<exists>dropped.
           js_sort (compare_hits lc) (all_cached_hits lib st now repo searchTerm opts)
             = fst (searchCachedData lib lc st now repo searchTerm opts) @ dropped
           \<and> (\<forall>x \<in> set (fst (searchCachedData lib lc st now repo searchTerm opts)).
                \<forall>y \<in> set dropped. ranks_before lc x y)"
    unfolding searchCachedData_eq
    using slice0_split [OF ranked_js_sort [OF assms]] by blast
  show "\<exists>collected.
           fst (searchCachedDataEnhanced lib lc r st now repo searchTerm opts)
             = slice0 (js_sort (compare_hits lc) collected)
                 (case maxResults opts of None \<Rightarrow> 200 | Some m \<Rightarrow> m)"
    by (rule searchCachedDataEnhanced_eq)
qed

lemma search_example:
  "map fullPath (fst (searchCachedData ascii_lib code_order (stored_at 5 ''abc123'') 7 ''demo'' ''d''
                        (at_most 1))) = [''docs'']"
  by code_simp

theorem search_results_ranked_witness:
  "sorted_wrt (ranks_before code_order)
     (fst (searchCachedData ascii_lib code_order (stored_at 5 ''abc123'') 7 ''demo'' ''d'' (at_most 1)))
   \<and> map fullPath (fst (searchCachedData ascii_lib code_order (stored_at 5 ''abc123'') 7 ''demo'' ''d''
                          (at_most 1))) = [''docs'']
   \<and> sorted_wrt (ranks_before code_order)
       (fst (searchCachedDataEnhanced ascii_lib code_order search_host empty_store 7 ''demo'' ''report''
               (at_most 2)))"
  using search_results_ranked [OF consistent_code_order, where lib = ascii_lib
          and st = "stored_at 5 ''abc123''" and now = 7 and repo = "''demo''"
          and searchTerm = "''d''" and opts = "at_most 1" and r = search_host]
    search_results_ranked [OF consistent_code_order, where lib = ascii_lib
          and st = empty_store and now = 7 and repo = "''demo''"
          and searchTerm = "''report''" and opts = "at_most 2" and r = search_host]
    search_example
  by blast

text \<open>
  Claim C7 as stated fails for the enhanced form, whose loops stop as soon as
  \<open>maxResults\<close> hits are collected. With nothing cached, the folders \<open>a\<close> and \<open>b\<close> are
  fetched in turn for the term \<open>report\<close>. With \<open>maxResults = 2\<close> both are searched and
  \<open>b/report\<close> (score 114) is ranked first. With \<open>maxResults = 1\<close> the loop stops after
  \<open>a\<close>, and the one hit returned is \<open>a/xreport\<close> (score 39): not the first of the two.
\<close>

theorem enhanced_search_counterexample:
  "map fullPath (fst (searchCachedDataEnhanced ascii_lib code_order search_host empty_store 7 ''demo''
                        ''report'' (at_most 2))) = [''b/report'', ''a/xreport'']
   \<and> map matchScore (fst (searchCachedDataEnhanced ascii_lib code_order search_host empty_store 7 ''demo''
                            ''report'' (at_most 2))) = [114, 39]
   \<and> map fullPath (fst (searchCachedDataEnhanced ascii_lib code_order search_host empty_store 7 ''demo''
                          ''report'' (at_most 1))) = [''a/xreport'']"
  by code_simp

section \<open>Expiry on both tiers\<close>

lemma expired_listing_removed:
  assumes "map_of (memoryCache st) (getCacheKey repo dir) = Some m"
    and "now - timestamp m > MAX_CACHE_AGE"
    and "\<not> getItem_throws (localStorage st)"
    and "map_of (items (localStorage st)) (getCacheKey repo dir) = Some (Json p)"
    and "now - timestamp p > MAX_CACHE_AGE"
  shows "fst (getCachedData st now repo dir) = None
     \<and> map_of (memoryCache (snd (getCachedData st now repo dir))) (getCacheKey repo dir) = None
     \<and> map_of (items (localStorage (snd (getCachedData st now repo dir)))) (getCacheKey repo dir)
         = None"
  using assms
  by (simp add: getCachedData_def getCachedData_try_def removeItem_def Let_def delete_conv')

lemma expired_token_removed:
  assumes "map_of (commitCache st) repo = Some m"
    and "now - timestamp m > MAX_CACHE_AGE"
    and "\<not> getItem_throws (localStorage st)"
    and "map_of (items (localStorage st)) (getCommitCacheKey repo) = Some (Json p)"
    and "now - timestamp p > MAX_CACHE_AGE"
  shows "fst (getCachedCommitSha st now repo) = None
     \<and> map_of (commitCache (snd (getCachedCommitSha st now repo))) repo = None
     \<and> map_of (items (localStorage (snd (getCachedCommitSha st now repo)))) (getCommitCacheKey repo)
         = None"
  using assms
  by (simp add: getCachedCommitSha_def getCachedCommitSha_try_def removeItem_def Let_def
      delete_conv')

text \<open>
  An entry older than the maximum age that sits in both tiers is treated as absent and
  removed from both by the access that finds it; this holds for a listing and for the
  commit token of a repository, and so for an entry stored 25 hours ago.
\<close>

theorem expired_entries_removed:
  assumes "\<not> getItem_throws (localStorage st)"
  shows
    "(\<forall>m p. map_of (memoryCache st) (getCacheKey repo dir) = Some m
          \<and> now - timestamp m > MAX_CACHE_AGE
          \<and> map_of (items (localStorage st)) (getCacheKey repo dir) = Some (Json p)
          \<and> now - timestamp p > MAX_CACHE_AGE
        \<longrightarrow> fst (getCachedData st now repo dir) = None
            \<and> map_of (memoryCache (snd (getCachedData st now repo dir))) (getCacheKey repo dir)
                = None
            \<and> map_of (items (localStorage (snd (getCachedData st now repo dir))))
                  (getCacheKey repo dir) = None)
     \<and> (\<forall>m p. map_of (commitCache st) repo = Some m
          \<and> now - timestamp m > MAX_CACHE_AGE
          \<and> map_of (items (localStorage st)) (getCommitCacheKey repo) = Some (Json p)
          \<and> now - timestamp p > MAX_CACHE_AGE
        \<longrightarrow> fst (getCachedCommitSha st now repo) = None
            \<and> map_of (commitCache (snd (getCachedCommitSha st now repo))) repo = None
            \<and> map_of (items (localStorage (snd (getCachedCommitSha st now repo))))
                  (getCommitCacheKey repo) = None)"
  using assms expired_listing_removed [of st repo dir _ now] expired_token_removed [of st repo _ now]
  by blast

theorem expired_entries_removed_witness:
  "fst (getCachedData (stored_at 0 ''abc123'') (25 * 60 * 60 * 1000) ''demo'' []) = None
   \<and> map_of (memoryCache (snd (getCachedData (stored_at 0 ''abc123'') (25 * 60 * 60 * 1000)
                                  ''demo'' []))) (getCacheKey ''demo'' []) = None
   \<and> map_of (items (localStorage (snd (getCachedData (stored_at 0 ''abc123'')
                                          (25 * 60 * 60 * 1000) ''demo'' []))))
        (getCacheKey ''demo'' []) = None
   \<and> fst (getCachedCommitSha (stored_at 0 ''abc123'') (25 * 60 * 60 * 1000) ''demo'') = None"
proof -
  let ?now = "25 * 60 * 60 * 1000 :: int"
  let ?st = "stored_at 0 ''abc123''"
  have k: "getCacheKey ''demo'' [] = ''gitea_repo_cache_demo_root''"
    "getCommitCacheKey ''demo'' = ''gitea_repo_cache_commit_demo''"
    by (simp_all add: getCacheKey_def getCommitCacheKey_def CACHE_PREFIX_def strip_slashes_def)
  have h0: "\<not> getItem_throws (localStorage ?st)" by (simp add: stored_at_eq)
  have h1: "map_of (memoryCache ?st) (getCacheKey ''demo'' [])
              = Some (new_entry 0 ''demo'' [] (Some ''abc123'') [example_file ''x.md''] [example_folder ''docs''])
            \<and> ?now - timestamp (new_entry 0 ''demo'' [] (Some ''abc123'') [example_file ''x.md''] [example_folder ''docs'']) > MAX_CACHE_AGE
            \<and> map_of (items (localStorage ?st)) (getCacheKey ''demo'' [])
              = Some (Json (new_entry 0 ''demo'' [] (Some ''abc123'') [example_file ''x.md''] [example_folder ''docs'']))
            \<and> ?now - timestamp (new_entry 0 ''demo'' [] (Some ''abc123'') [example_file ''x.md''] [example_folder ''docs'']) > MAX_CACHE_AGE"
    by (simp add: stored_at_eq k new_entry_def MAX_CACHE_AGE_def)
  have h2: "map_of (commitCache ?st) ''demo''
              = Some \<lparr>version = CACHE_VERSION, timestamp = 0, lastFetched = None,
                       commitSha = Some ''abc123'', path = None, files = None, folders = None,
                       repoName = None\<rparr>
            \<and> ?now - timestamp \<lparr>version = CACHE_VERSION, timestamp = 0, lastFetched = None,
                       commitSha = Some ''abc123'', path = None, files = None, folders = None,
                       repoName = None\<rparr> > MAX_CACHE_AGE
            \<and> map_of (items (localStorage ?st)) (getCommitCacheKey ''demo'')
              = Some (Json \<lparr>version = CACHE_VERSION, timestamp = 0, lastFetched = None,
                       commitSha = Some ''abc123'', path = None, files = None, folders = None,
                       repoName = None\<rparr>)
            \<and> ?now - timestamp \<lparr>version = CACHE_VERSION, timestamp = 0, lastFetched = None,
                       commitSha = Some ''abc123'', path = None, files = None, folders = None,
                       repoName = None\<rparr> > MAX_CACHE_AGE"
    by (simp add: stored_at_eq k MAX_CACHE_AGE_def)
  show ?thesis
    using expired_entries_removed [OF h0, of "''demo''" "[]" ?now] h1 h2 by blast
qed

end
